theory Spec2Isabelle
  imports Complex_Main
begin

section \<open>Python values\<close>

text \<open>
  The handlers work on decoded JSON documents: the request body of an HTTP call, the body
  of a provider response, the body of a queue record. A number that Python decodes as a
  \<open>float\<close> is a double: a finite one is held by its exact value, a JSON literal beyond
  the range of a double decodes to an infinity, and \<open>json.loads\<close> also takes the
  literals \<open>Infinity\<close>, \<open>-Infinity\<close> and \<open>NaN\<close>.
  A \<open>dict\<close> is an association list read with \<open>map_of\<close>.
\<close>

datatype pyfloat = Finite rat | Inf bool | NaN

datatype json =
    JNull
  | JBool bool
  | JInt int
  | JFloat pyfloat
  | JStr string
  | JArr "json list"
  | JObj "(string \<times> json) list"

text \<open>Truth value testing, as \<open>if x:\<close> does it.\<close>

definition truthy :: "json \<Rightarrow> bool" where
  "truthy v =
     (case v of
        JNull \<Rightarrow> False
      | JBool b \<Rightarrow> b
      | JInt n \<Rightarrow> n \<noteq> 0
      | JFloat f \<Rightarrow> f \<noteq> Finite 0
      | JStr s \<Rightarrow> s \<noteq> []
      | JArr xs \<Rightarrow> xs \<noteq> []
      | JObj kvs \<Rightarrow> kvs \<noteq> [])"

definition is_dict :: "json \<Rightarrow> bool" where
  "is_dict v = (case v of JObj _ \<Rightarrow> True | _ \<Rightarrow> False)"

definition dict_get :: "(string \<times> json) list \<Rightarrow> string \<Rightarrow> json \<Rightarrow> json" where
  \<comment> \<open>\<open>d.get(k, default)\<close>\<close>
  "dict_get d k dflt = (case map_of d k of None \<Rightarrow> dflt | Some v \<Rightarrow> v)"

datatype api_message = API_Error | Network_error | Unexpected_response_shape_for_get_user

datatype value_error =
    Missing_eventType
  | Unknown_eventType json
  | No_model_registered string
  | Failed_to_parse string

datatype error =
    AttributeError
  | TypeError
  | KeyError
  | OverflowError
  | InvalidOperation
  | ValidationError
  | ValueError value_error
  | RapydMoneyAPIError int string api_message
  | OtherException string

text \<open>
  \<open>x in c\<close> for a string \<open>x\<close>: a key of a dict, an element of a list, a substring of a
  string; any other container type raises \<open>TypeError\<close>.
\<close>

fun contains :: "string \<Rightarrow> string \<Rightarrow> bool" where
  "contains sub [] = (sub = [])"
| "contains sub (c # cs) = (take (length sub) (c # cs) = sub \<or> contains sub cs)"

definition py_in :: "string \<Rightarrow> json \<Rightarrow> error + bool" where
  "py_in k c =
     (case c of
        JObj d \<Rightarrow> Inr (map_of d k \<noteq> None)
      | JArr xs \<Rightarrow> Inr (JStr k \<in> set xs)
      | JStr s \<Rightarrow> Inr (contains k s)
      | _ \<Rightarrow> Inl TypeError)"

definition py_getitem :: "json \<Rightarrow> string \<Rightarrow> error + json" where
  \<comment> \<open>\<open>c[k]\<close> for a string \<open>k\<close>\<close>
  "py_getitem c k =
     (case c of
        JObj d \<Rightarrow> (case map_of d k of None \<Rightarrow> Inl KeyError | Some v \<Rightarrow> Inr v)
      | _ \<Rightarrow> Inl TypeError)"

definition lower_char :: "char \<Rightarrow> char" where
  "lower_char c =
     (let n = (of_char c :: nat) in if 65 \<le> n \<and> n \<le> 90 then char_of (n + 32) else c)"

definition lower :: "string \<Rightarrow> string" where
  \<comment> \<open>\<open>str.lower()\<close>; no character outside A-Z lower-cases to a letter of "successful"\<close>
  "lower s = map lower_char s"

definition upper_char :: "char \<Rightarrow> char" where
  "upper_char c =
     (let n = (of_char c :: nat) in if 97 \<le> n \<and> n \<le> 122 then char_of (n - 32) else c)"

definition upper :: "string \<Rightarrow> string" where
  "upper s = map upper_char s"

definition lstrip :: "char \<Rightarrow> string \<Rightarrow> string" where
  "lstrip c s = dropWhile (\<lambda>x. x = c) s"

definition rstrip :: "char \<Rightarrow> string \<Rightarrow> string" where
  "rstrip c s = rev (dropWhile (\<lambda>x. x = c) (rev s))"

subsection \<open>Floats\<close>

text \<open>
  \<open>amount_cents / 100.0\<close> is a division of doubles: the integer is converted to the
  nearest double (\<open>OverflowError\<close> beyond the range), and the quotient is rounded to the
  nearest double, ties to even.
\<close>

fun bit_length :: "nat \<Rightarrow> nat" where
  "bit_length n = (if n = 0 then 0 else Suc (bit_length (n div 2)))"

declare bit_length.simps [simp del]

definition pow2 :: "int \<Rightarrow> rat" where
  "pow2 e = (if 0 \<le> e then 2 ^ nat e else 1 / 2 ^ nat (- e))"

definition floor_log2 :: "rat \<Rightarrow> int" where
  \<comment> \<open>the integer part of the binary logarithm, for a positive argument\<close>
  "floor_log2 q =
     (if 1 \<le> q then int (bit_length (nat \<lfloor>q\<rfloor>)) - 1
      else - int (bit_length (nat (\<lceil>1 / q\<rceil> - 1))))"

definition round_half_even :: "rat \<Rightarrow> int" where
  "round_half_even q =
     (let f = \<lfloor>q\<rfloor>; r = q - of_int f
      in if r < 1 / 2 then f else if 1 / 2 < r then f + 1 else if even f then f else f + 1)"

definition round_double :: "rat \<Rightarrow> rat" where
  "round_double q =
     (if q = 0 then 0
      else let a = \<bar>q\<bar>;
               e = max (floor_log2 a) (- 1022);
               u = pow2 (e - 52)
           in sgn q * of_int (round_half_even (a / u)) * u)"

definition float_of_int :: "int \<Rightarrow> error + rat" where
  "float_of_int n =
     (let r = round_double (of_int n)
      in if pow2 1024 \<le> \<bar>r\<bar> then Inl OverflowError else Inr r)"

definition truediv_100 :: "json \<Rightarrow> error + pyfloat" where
  \<comment> \<open>\<open>x / 100.0\<close>\<close>
  "truediv_100 x =
     (case x of
        JInt n \<Rightarrow>
          (case float_of_int n of Inl e \<Rightarrow> Inl e | Inr r \<Rightarrow> Inr (Finite (round_double (r / 100))))
      | JBool b \<Rightarrow> Inr (Finite (round_double ((if b then 1 else 0) / 100)))
      | JFloat (Finite r) \<Rightarrow> Inr (Finite (round_double (r / 100)))
      | JFloat (Inf p) \<Rightarrow> Inr (Inf p)
      | JFloat NaN \<Rightarrow> Inr NaN
      | _ \<Rightarrow> Inl TypeError)"

definition decimal_lt_float :: "rat \<Rightarrow> pyfloat \<Rightarrow> error + bool" where
  \<comment> \<open>\<open>d < x\<close> for a finite \<open>Decimal\<close> and a float: the two values are compared
      exactly, and an ordering comparison with NaN raises \<open>decimal.InvalidOperation\<close>\<close>
  "decimal_lt_float d x =
     (case x of Finite r \<Rightarrow> Inr (d < r) | Inf p \<Rightarrow> Inr p | NaN \<Rightarrow> Inl InvalidOperation)"

subsection \<open>Library primitives, collaborators and configuration\<close>

text \<open>
  A \<open>Decimal\<close> is a rational or one of the special values (NaN, the infinities).
  A balance object holds finite decimals only: pydantic's validation of a
  \<open>Decimal\<close> field rejects a special value.
\<close>

datatype decimal = Dec rat | NonFinite

record http_request =
  http_method :: string
  url :: string
  headers :: "(string \<times> string) list"
  json_body :: "json option"
  timeout :: rat

text \<open>
  What \<open>requests.request\<close> gives back: a transport failure, or a response with its
  status code and body. The body is empty, a JSON document (as \<open>resp.json()\<close> decodes
  it) or a text that is not JSON.
\<close>

datatype content = Empty | Json json | Text string

datatype http_result = RequestException | Response int content

text \<open>
  The environment of a run. The first five fields are library functions that are taken as
  they are: \<open>json.loads\<close> (\<open>None\<close> when it raises), \<open>str\<close> on a value that is
  not a string, the \<open>Decimal\<close> constructor on a string (\<open>None\<close> when it raises),
  the validation of an \<open>EmailStr\<close> (the validated address) and pydantic's coercion of a
  value to \<open>bool\<close>. Then the collaborators, which act on the outside world \<open>'w\<close>: the
  payment provider behind \<open>requests.request\<close>, and the two helpers of the mailer. Last,
  the two environment variables.
\<close>

record 'w env =
  json_loads :: "string \<Rightarrow> json option"
  str_nonstring :: "json \<Rightarrow> string"
  Decimal :: "string \<Rightarrow> decimal option"
  EmailStr :: "string \<Rightarrow> string option"
  bool_lax :: "json \<Rightarrow> bool option"
  provider :: "http_request \<Rightarrow> 'w \<Rightarrow> http_result \<times> 'w"
  send_welcome_email :: "string \<Rightarrow> string option \<Rightarrow> string option \<Rightarrow> 'w \<Rightarrow> (error + bool) \<times> 'w"
  send_magic_link_email :: "string \<Rightarrow> string \<Rightarrow> string option \<Rightarrow> 'w \<Rightarrow> (error + bool) \<times> 'w"
  RAPYD_MONEY_API_TOKEN :: "string option"
  RAPYD_MONEY_BASE_URL :: "string option"

definition py_str :: "'w env \<Rightarrow> json \<Rightarrow> string" where
  \<comment> \<open>\<open>str(v)\<close>, also the \<open>{v}\<close> of an f-string\<close>
  "py_str E v = (case v of JStr s \<Rightarrow> s | _ \<Rightarrow> str_nonstring E v)"

subsection \<open>State, exceptions, logging\<close>

text \<open>
  What a run leaves behind: the requests sent to the provider with their results, the
  calls made to the mailer, the lines printed or logged (the text of a caught exception,
  which some lines end with, is left out), and the outside world.
\<close>

datatype log = Print string | LogInfo string | LogError string | LogWarning string

datatype mail_call =
    Welcome string "string option" "string option"
  | MagicLink string string "string option"

record 'w state =
  exchanges :: "(http_request \<times> http_result) list"
  mails :: "mail_call list"
  logs :: "log list"
  world :: 'w

type_synonym ('w, 'a) prog = "'w state \<Rightarrow> (error + 'a) \<times> 'w state"

definition return :: "'a \<Rightarrow> ('w, 'a) prog" where
  "return x s = (Inr x, s)"

definition raise :: "error \<Rightarrow> ('w, 'a) prog" where
  "raise e s = (Inl e, s)"

definition lift :: "error + 'a \<Rightarrow> ('w, 'a) prog" where
  "lift r s = (r, s)"

definition andthen :: "('w, 'a) prog \<Rightarrow> ('a \<Rightarrow> ('w, 'b) prog) \<Rightarrow> ('w, 'b) prog" where
  "andthen m f s = (case m s of (Inl e, s') \<Rightarrow> (Inl e, s') | (Inr x, s') \<Rightarrow> f x s')"

definition try_except :: "('w, 'a) prog \<Rightarrow> (error \<Rightarrow> ('w, 'a) prog) \<Rightarrow> ('w, 'a) prog" where
  \<comment> \<open>\<open>try: m  except Exception as e: h e\<close>\<close>
  "try_except m h s = (case m s of (Inl e, s') \<Rightarrow> h e s' | (Inr x, s') \<Rightarrow> (Inr x, s'))"

definition emit :: "log \<Rightarrow> ('w, unit) prog" where
  "emit l s = (Inr (), s\<lparr>logs := logs s @ [l]\<rparr>)"

section \<open>The payment provider client (rapydmoney.py)\<close>

record RapydMoneyUser =
  user_id :: string
  user_email :: string
  first_name :: string
  last_name :: string
  public_key :: string
  payment_identifier :: string

record RapydMoneyBalance =
  zar :: rat
  usd :: rat

record RapydMoneyService =
  api_token :: "string option"
  base_url :: string
  default_timeout :: rat

text \<open>
  An instance of a pydantic model defines neither \<open>__bool__\<close> nor \<open>__len__\<close>: it is
  true in a condition.
\<close>

definition model_truthy :: "'a \<Rightarrow> bool" where
  "model_truthy obj = True"

definition create_rapydmoney_service :: "string option \<Rightarrow> string option \<Rightarrow> error + RapydMoneyService" where
  \<comment> \<open>the handlers pass \<open>base_url=os.getenv(...)\<close>: an unset variable is \<open>None\<close>, and
      \<open>None.rstrip\<close> raises\<close>
  "create_rapydmoney_service token burl =
     (case burl of
        None \<Rightarrow> Inl AttributeError
      | Some b \<Rightarrow> Inr \<lparr>api_token = token, base_url = rstrip CHR ''/'' b, default_timeout = 10\<rparr>)"

definition private_headers :: "RapydMoneyService \<Rightarrow> (string \<times> string) list" where
  "private_headers svc =
     [(''Content-Type'', ''application/json''),
      (''Authorization'', ''Bearer '' @ (case api_token svc of None \<Rightarrow> ''None'' | Some t \<Rightarrow> t))]"

definition request_url :: "RapydMoneyService \<Rightarrow> string \<Rightarrow> string" where
  "request_url svc path = base_url svc @ ''/'' @ lstrip CHR ''/'' path"

definition private_request ::
  "'w env \<Rightarrow> RapydMoneyService \<Rightarrow> string \<Rightarrow> string \<Rightarrow> json option \<Rightarrow> rat option \<Rightarrow> ('w, json) prog" where
  "private_request E svc meth path body tmo s =
     (let rq = \<lparr>http_method = upper meth, url = request_url svc path, headers = private_headers svc,
                json_body = body,
                timeout = (case tmo of None \<Rightarrow> default_timeout svc
                           | Some t \<Rightarrow> if t = 0 then default_timeout svc else t)\<rparr>;
          (resp, w') = provider E rq (world s);
          s' = s\<lparr>exchanges := exchanges s @ [(rq, resp)], world := w'\<rparr>
      in case resp of
           RequestException \<Rightarrow> (Inl (RapydMoneyAPIError (- 1) (url rq) Network_error), s')
         | Response status_code body \<Rightarrow>
             if \<not> (200 \<le> status_code \<and> status_code < 300)
             then (Inl (RapydMoneyAPIError status_code (url rq) API_Error), s')
             else (Inr (case body of Empty \<Rightarrow> JNull | Json j \<Rightarrow> j | Text t \<Rightarrow> JStr t), s'))"

text \<open>
  \<open>RapydMoneyUser.from_api\<close>: every field is a required \<open>str\<close>; a field with an alias
  is read by its alias, else by its name (\<open>populate_by_name\<close>).
\<close>

definition str_field :: "(string \<times> json) list \<Rightarrow> string list \<Rightarrow> string option" where
  "str_field d names =
     (case List.map_filter (map_of d) names of
        JStr s # _ \<Rightarrow> Some s
      | _ \<Rightarrow> None)"

definition RapydMoneyUser_from_api :: "json \<Rightarrow> error + RapydMoneyUser" where
  "RapydMoneyUser_from_api data =
     (case data of
        JObj d \<Rightarrow>
          (case (str_field d [''id''], str_field d [''email''],
                 str_field d [''firstName'', ''first_name''],
                 str_field d [''lastName'', ''last_name''],
                 str_field d [''publicKey'', ''public_key''],
                 str_field d [''paymentIdentifier'', ''payment_identifier'']) of
             (Some i, Some e, Some f, Some l, Some k, Some p) \<Rightarrow>
               Inr \<lparr>user_id = i, user_email = e, first_name = f, last_name = l,
                    public_key = k, payment_identifier = p\<rparr>
           | _ \<Rightarrow> Inl ValidationError)
      | _ \<Rightarrow> Inl ValidationError)"

text \<open>\<open>RapydMoneyBalance.from_api\<close>: the loop over the tokens, then the validation.\<close>

definition token_balance :: "'w env \<Rightarrow> (string \<times> json) list \<Rightarrow> decimal" where
  "token_balance E t =
     (case Decimal E (py_str E (dict_get t ''balance'' (JStr ''0''))) of
        None \<Rightarrow> Dec 0
      | Some b \<Rightarrow> b)"

fun scan_tokens :: "'w env \<Rightarrow> json list \<Rightarrow> decimal \<times> decimal \<Rightarrow> decimal \<times> decimal" where
  "scan_tokens E [] acc = acc"
| "scan_tokens E (t # ts) (zar_acc, usd_acc) =
     (case t of
        JObj d \<Rightarrow>
          (let name = dict_get d ''name'' JNull; bal = token_balance E d
           in if name = JStr ''L ZAR Coin'' then scan_tokens E ts (bal, usd_acc)
              else if name = JStr ''L USD Coin'' then scan_tokens E ts (zar_acc, bal)
              else scan_tokens E ts (zar_acc, usd_acc))
      | _ \<Rightarrow> scan_tokens E ts (zar_acc, usd_acc))"

definition model_validate_balance :: "decimal \<times> decimal \<Rightarrow> error + RapydMoneyBalance" where
  "model_validate_balance payload =
     (case payload of
        (Dec z, Dec u) \<Rightarrow> Inr \<lparr>zar = z, usd = u\<rparr>
      | _ \<Rightarrow> Inl ValidationError)"

definition balance_tokens :: "json \<Rightarrow> json" where
  \<comment> \<open>the object that holds "tokens", then \<open>src.get("tokens", [])\<close>\<close>
  "balance_tokens data =
     (let src = (case data of
                   JObj d \<Rightarrow>
                     if map_of d ''tokens'' \<noteq> None then d
                     else (case map_of d ''balance'' of Some (JObj b) \<Rightarrow> b | _ \<Rightarrow> [])
                 | _ \<Rightarrow> [])
      in dict_get src ''tokens'' (JArr []))"

definition RapydMoneyBalance_from_api :: "'w env \<Rightarrow> json \<Rightarrow> error + RapydMoneyBalance" where
  "RapydMoneyBalance_from_api E data =
     model_validate_balance
       (case balance_tokens data of
          JArr ts \<Rightarrow> scan_tokens E ts (Dec 0, Dec 0)
        | _ \<Rightarrow> (Dec 0, Dec 0))"

subsection \<open>The public methods\<close>

definition create_user :: "'w env \<Rightarrow> RapydMoneyService \<Rightarrow> json \<Rightarrow> rat option \<Rightarrow> ('w, json) prog" where
  "create_user E svc user_data tmo =
     andthen (private_request E svc ''POST'' ''/users'' (Some user_data) tmo) (\<lambda>data.
       case data of
         JObj d \<Rightarrow> (case map_of d ''user'' of Some (JObj u) \<Rightarrow> return (JObj u) | _ \<Rightarrow> return data)
       | _ \<Rightarrow> return data)"

definition get_user :: "'w env \<Rightarrow> RapydMoneyService \<Rightarrow> json \<Rightarrow> rat option \<Rightarrow> ('w, RapydMoneyUser) prog" where
  "get_user E svc uid tmo =
     andthen (private_request E svc ''GET'' (''/users/'' @ py_str E uid) None tmo) (\<lambda>data.
       case data of
         JObj d \<Rightarrow>
           (case map_of d ''user'' of
              Some (JObj u) \<Rightarrow> lift (RapydMoneyUser_from_api (JObj u))
            | _ \<Rightarrow> lift (RapydMoneyUser_from_api data))
       | _ \<Rightarrow> raise (RapydMoneyAPIError (- 1) (base_url svc @ ''/users/'' @ py_str E uid)
                      Unexpected_response_shape_for_get_user))"

definition balance_src :: "json \<Rightarrow> json" where
  "balance_src data =
     (case data of
        JObj d \<Rightarrow> (case map_of d ''balance'' of Some (JObj b) \<Rightarrow> JObj b | _ \<Rightarrow> data)
      | _ \<Rightarrow> JObj [])"

definition get_balance :: "'w env \<Rightarrow> RapydMoneyService \<Rightarrow> json \<Rightarrow> rat option \<Rightarrow> ('w, RapydMoneyBalance) prog" where
  "get_balance E svc uid tmo =
     andthen (private_request E svc ''GET'' (''/'' @ py_str E uid @ ''/balance'') None tmo) (\<lambda>data.
       lift (RapydMoneyBalance_from_api E (balance_src data)))"

definition activate_pay :: "'w env \<Rightarrow> RapydMoneyService \<Rightarrow> json \<Rightarrow> rat option \<Rightarrow> ('w, json) prog" where
  "activate_pay E svc uid tmo =
     andthen (private_request E svc ''POST'' (''/activate-pay/'' @ py_str E uid) None tmo) (\<lambda>data.
       return (if is_dict data then data else JObj [(''success'', JBool True)]))"

definition get_recipient :: "'w env \<Rightarrow> RapydMoneyService \<Rightarrow> string \<Rightarrow> rat option \<Rightarrow> ('w, json) prog" where
  "get_recipient E svc pid tmo =
     andthen (private_request E svc ''GET'' (''/recipient/'' @ pid) None tmo) (\<lambda>data.
       case data of
         JObj d \<Rightarrow> (case map_of d ''recipient'' of Some (JObj r) \<Rightarrow> return (JObj r) | _ \<Rightarrow> return data)
       | _ \<Rightarrow> return data)"

definition mint :: "'w env \<Rightarrow> RapydMoneyService \<Rightarrow> json \<Rightarrow> rat option \<Rightarrow> ('w, json) prog" where
  "mint E svc mint_data tmo = private_request E svc ''POST'' ''/mint'' (Some mint_data) tmo"

definition successful_message :: "'w env \<Rightarrow> json \<Rightarrow> bool" where
  \<comment> \<open>\<open>'successful' in str(m).lower()\<close>\<close>
  "successful_message E m = contains ''successful'' (lower (py_str E m))"

definition do_transfer ::
  "'w env \<Rightarrow> RapydMoneyService \<Rightarrow> string \<Rightarrow> string \<Rightarrow> pyfloat \<Rightarrow> string \<Rightarrow> ('w, json) prog" where
  "do_transfer E svc from_user_id to_user_identifier amount trx_id =
     (let trx = JObj [(''transactionAmount'', JFloat amount),
                      (''transactionRecipient'', JStr to_user_identifier),
                      (''transactionNotes'', JStr trx_id)]
      in andthen (private_request E svc ''POST'' (''/transfer/'' @ from_user_id) (Some trx) (Some 60))
           (\<lambda>data.
              if truthy data then
                andthen (lift (py_in ''message'' data)) (\<lambda>has_message.
                  if has_message then
                    andthen (lift (py_getitem data ''message'')) (\<lambda>m.
                      if successful_message E m then return data else return (JBool False))
                  else return (JBool False))
              else return (JBool False)))"

section \<open>The HTTP handlers (app.py)\<close>

definition body_get :: "json \<Rightarrow> string \<Rightarrow> error + json" where
  \<comment> \<open>\<open>app.current_request.json_body.get(k, None)\<close>: only a dict has \<open>get\<close>\<close>
  "body_get body k = (case body of JObj d \<Rightarrow> Inr (dict_get d k JNull) | _ \<Rightarrow> Inl AttributeError)"

definition new_service :: "'w env \<Rightarrow> ('w, RapydMoneyService) prog" where
  "new_service E = lift (create_rapydmoney_service (RAPYD_MONEY_API_TOKEN E) (RAPYD_MONEY_BASE_URL E))"

definition api_ping :: "json" where
  "api_ping = JObj [(''message'', JStr ''pong'')]"

definition insufficient_funds :: json where
  "insufficient_funds = JObj [(''result'', JBool False), (''message'', JStr ''Insufficient funds'')]"

definition can_pay_ok :: json where
  "can_pay_ok = JObj [(''result'', JBool True)]"

definition user_not_found :: json where
  "user_not_found = JObj [(''result'', JBool False), (''message'', JStr ''User not found'')]"

definition api_can_pay :: "'w env \<Rightarrow> json \<Rightarrow> ('w, json) prog" where
  "api_can_pay E body =
     andthen (lift (body_get body ''studentId'')) (\<lambda>from_user_id.
     andthen (lift (body_get body ''amount_cents'')) (\<lambda>amount_cents.
     andthen (lift (truediv_100 amount_cents)) (\<lambda>amount.
       if truthy from_user_id then
         andthen (new_service E) (\<lambda>rapyd.
         andthen (get_balance E rapyd from_user_id None) (\<lambda>from_user_balance.
           if model_truthy from_user_balance then
             andthen (lift (decimal_lt_float (zar from_user_balance) amount)) (\<lambda>below.
               if below then return insufficient_funds else return can_pay_ok)
           else return JNull))
       else return user_not_found)))"

definition transfer_successful :: json where
  "transfer_successful =
     JObj [(''result'', JBool True), (''message'', JStr ''Sponsor user transfer successful'')]"

definition transfer_failed :: json where
  "transfer_failed = JObj [(''result'', JBool False), (''message'', JStr ''Sponsor transfer failed'')]"

definition invalid_request :: json where
  "invalid_request =
     JObj [(''result'', JBool False), (''message'', JStr ''Sponsor transfer failed, invalid request'')]"

text \<open>
  The test of the transfer's result, which both transfer handlers write out:
  \<open>if resp: if 'message' in resp: if 'successful' in str(resp['message']).lower():\<close>
\<close>

definition resp_successful :: "'w env \<Rightarrow> json \<Rightarrow> ('w, bool) prog" where
  "resp_successful E resp =
     (if truthy resp then
        andthen (lift (py_in ''message'' resp)) (\<lambda>has_message.
          if has_message then
            andthen (lift (py_getitem resp ''message'')) (\<lambda>m. return (successful_message E m))
          else return False)
      else return False)"

definition api_pay_user :: "'w env \<Rightarrow> json \<Rightarrow> ('w, json) prog" where
  "api_pay_user E body =
     andthen (lift (body_get body ''merchantId'')) (\<lambda>merchant_id.
     andthen (lift (body_get body ''studentId'')) (\<lambda>student_id.
       if truthy merchant_id \<and> truthy student_id then
         andthen (new_service E) (\<lambda>rapyd.
         andthen (lift (body_get body ''idempotency_key'')) (\<lambda>idempotency_key.
         andthen (lift (body_get body ''amount_cents'')) (\<lambda>amount_cents.
         andthen (lift (truediv_100 amount_cents)) (\<lambda>amount.
         andthen (get_user E rapyd merchant_id None) (\<lambda>merchant_user.
         andthen (get_user E rapyd student_id None) (\<lambda>student_user.
         andthen
           (if model_truthy merchant_user \<and> model_truthy student_user then
              andthen (get_recipient E rapyd (payment_identifier student_user) None) (\<lambda>recipient.
                if truthy recipient then
                  andthen (do_transfer E rapyd (user_id student_user)
                             (payment_identifier merchant_user) amount
                             (''Idem_'' @ py_str E idempotency_key)) (\<lambda>resp.
                  andthen (resp_successful E resp) (\<lambda>ok.
                    if ok then andthen (emit (Print ''Successful transfer'')) (\<lambda>_. return True)
                    else return False))
                else return False)
            else return False)
           (\<lambda>returned.
              if returned then return transfer_successful
              else andthen (emit (Print ''Failed to transfer funds to student'')) (\<lambda>_.
                     return transfer_failed))))))))
       else
         andthen (emit (Print ''Invalid request: missing sponsorId or studentId'')) (\<lambda>_.
           return invalid_request)))"

definition user_can_pay :: json where
  "user_can_pay = JObj [(''message'', JStr ''User can pay'')]"

definition user_cannot_pay :: json where
  "user_cannot_pay = JObj [(''message'', JStr ''User cannot pay'')]"

definition api_fund_user :: "'w env \<Rightarrow> json \<Rightarrow> ('w, json) prog" where
  "api_fund_user E body =
     andthen (lift (body_get body ''sponsorId'')) (\<lambda>sponsor_id.
       if truthy sponsor_id then
         andthen (new_service E) (\<lambda>rapyd.
         andthen (lift (body_get body ''amount_cents'')) (\<lambda>amount_cents.
         andthen (lift (truediv_100 amount_cents)) (\<lambda>amount.
         andthen (get_user E rapyd sponsor_id None) (\<lambda>existing_user.
         andthen
           (if model_truthy existing_user then
              (let new_mint_request =
                     JObj [(''transactionAmount'', JFloat amount),
                           (''transactionRecipient'', JStr (payment_identifier existing_user)),
                           (''transactionNotes'',
                            JStr (''EFT deposit '' @ py_str E (JFloat amount) @ '' to '' @ py_str E sponsor_id))]
               in andthen (mint E rapyd new_mint_request None) (\<lambda>resp.
                  andthen (emit (Print (py_str E resp))) (\<lambda>_.
                    if truthy resp then emit (Print ''Mint request successful'')
                    else emit (Print ''Mint request failed''))))
            else emit (Print (''User '' @ py_str E sponsor_id @ '' not found'')))
           (\<lambda>_. return user_can_pay)))))
       else return user_cannot_pay)"

definition api_sponsor_user :: "'w env \<Rightarrow> json \<Rightarrow> ('w, json) prog" where
  "api_sponsor_user E body =
     andthen (emit (Print (''Incoming sponsor transfer  request: '' @ py_str E body))) (\<lambda>_.
     andthen (lift (body_get body ''sponsorId'')) (\<lambda>sponsor_id.
     andthen (lift (body_get body ''studentId'')) (\<lambda>student_id.
       if truthy sponsor_id \<and> truthy student_id then
         andthen (new_service E) (\<lambda>rapyd.
         andthen (lift (body_get body ''idempotency_key'')) (\<lambda>idempotency_key.
         andthen (lift (body_get body ''amount_cents'')) (\<lambda>amount_cents.
         andthen (lift (truediv_100 amount_cents)) (\<lambda>amount.
         andthen (get_user E rapyd sponsor_id None) (\<lambda>sponsor_user.
         andthen (get_user E rapyd student_id None) (\<lambda>student_user.
         andthen
           (if model_truthy sponsor_user \<and> model_truthy student_user then
              andthen (get_recipient E rapyd (payment_identifier student_user) None) (\<lambda>recipient.
                if truthy recipient then
                  andthen (do_transfer E rapyd (user_id sponsor_user)
                             (payment_identifier student_user) amount
                             (''Idem_'' @ py_str E idempotency_key)) (\<lambda>resp.
                  andthen (resp_successful E resp) (\<lambda>ok.
                    if ok then andthen (emit (Print ''Successful transfer'')) (\<lambda>_. return True)
                    else return False))
                else return False)
            else return False)
           (\<lambda>returned.
              if returned then return transfer_successful
              else andthen (emit (Print ''Failed to transfer funds to student'')) (\<lambda>_.
                     return transfer_failed))))))))
       else
         andthen (emit (Print ''Invalid request: missing sponsorId or studentId'')) (\<lambda>_.
           return invalid_request))))"

text \<open>The four payment routes.\<close>

datatype route = Can_pay | Pay_user | Fund_user | Sponsor_user

definition handler :: "'w env \<Rightarrow> route \<Rightarrow> json \<Rightarrow> ('w, json) prog" where
  "handler E r =
     (case r of
        Can_pay \<Rightarrow> api_can_pay E
      | Pay_user \<Rightarrow> api_pay_user E
      | Fund_user \<Rightarrow> api_fund_user E
      | Sponsor_user \<Rightarrow> api_sponsor_user E)"

section \<open>The typed messages and their registry (parsemessage.py)\<close>

datatype EventType = USER_REGISTERED | STUDENT_MAGIC_LINK_REQUESTED

definition EventType_of :: "json \<Rightarrow> EventType option" where
  \<comment> \<open>\<open>EventType(value)\<close>; \<open>None\<close> when the enum has no member of this value\<close>
  "EventType_of v =
     (if v = JStr ''USER_REGISTERED'' then Some USER_REGISTERED
      else if v = JStr ''STUDENT_MAGIC_LINK_REQUESTED'' then Some STUDENT_MAGIC_LINK_REQUESTED
      else None)"

definition event_value :: "EventType \<Rightarrow> string" where
  "event_value e =
     (case e of USER_REGISTERED \<Rightarrow> ''USER_REGISTERED''
      | STUDENT_MAGIC_LINK_REQUESTED \<Rightarrow> ''STUDENT_MAGIC_LINK_REQUESTED'')"

datatype UserRole = merchant | student | admin | sponsor

definition UserRole_of :: "json \<Rightarrow> UserRole option" where
  "UserRole_of v =
     (if v = JStr ''merchant'' then Some merchant
      else if v = JStr ''student'' then Some student
      else if v = JStr ''admin'' then Some admin
      else if v = JStr ''sponsor'' then Some sponsor
      else None)"

definition role_value :: "UserRole \<Rightarrow> string" where
  "role_value r =
     (case r of merchant \<Rightarrow> ''merchant'' | student \<Rightarrow> ''student'' | admin \<Rightarrow> ''admin''
      | sponsor \<Rightarrow> ''sponsor'')"

record Keys =
  Pk :: string
  Sk :: string

record UserEnvelope =
  ue_id :: string
  ue_email :: string
  role :: "UserRole option"
  firstName :: "string option"
  lastName :: "string option"
  studentNumber :: "string option"
  is_active :: "bool option"
  created_at :: "string option"

record UserRegisteredMessage =
  ur_timestamp :: string
  user :: UserEnvelope
  keys :: Keys
  table :: string
  ur_source :: string

record StudentMagicLinkRequestedMessage =
  ml_timestamp :: string
  email :: string
  magicToken :: string
  linkUrl :: "string option"
  ml_source :: "string option"

datatype message =
    UserRegistered UserRegisteredMessage
  | StudentMagicLinkRequested StudentMagicLinkRequestedMessage

definition eventType :: "message \<Rightarrow> EventType" where
  \<comment> \<open>the literal of each class\<close>
  "eventType m =
     (case m of UserRegistered _ \<Rightarrow> USER_REGISTERED
      | StudentMagicLinkRequested _ \<Rightarrow> STUDENT_MAGIC_LINK_REQUESTED)"

subsection \<open>Validation of the fields\<close>

text \<open>
  pydantic (version 2, as \<open>model_validate\<close> requires) validates a dict field by field:
  a \<open>str\<close> field takes a string only, an optional field may be absent or \<open>None\<close>, a
  nested model takes a dict, and a key that names no field is not looked at. \<open>None\<close>
  stands for a \<open>ValidationError\<close>.
\<close>

definition req_str :: "(string \<times> json) list \<Rightarrow> string \<Rightarrow> string option" where
  "req_str d k = (case map_of d k of Some (JStr s) \<Rightarrow> Some s | _ \<Rightarrow> None)"

definition opt_field :: "(json \<Rightarrow> 'a option) \<Rightarrow> (string \<times> json) list \<Rightarrow> string \<Rightarrow> 'a option option" where
  "opt_field validate d k =
     (case map_of d k of
        None \<Rightarrow> Some None
      | Some JNull \<Rightarrow> Some None
      | Some v \<Rightarrow> (case validate v of None \<Rightarrow> None | Some x \<Rightarrow> Some (Some x)))"

definition str_value :: "json \<Rightarrow> string option" where
  "str_value v = (case v of JStr s \<Rightarrow> Some s | _ \<Rightarrow> None)"

definition email_value :: "'w env \<Rightarrow> json \<Rightarrow> string option" where
  "email_value E v = (case v of JStr s \<Rightarrow> EmailStr E s | _ \<Rightarrow> None)"

definition req_field :: "(json \<Rightarrow> 'a option) \<Rightarrow> (string \<times> json) list \<Rightarrow> string \<Rightarrow> 'a option" where
  "req_field validate d k = (case map_of d k of None \<Rightarrow> None | Some v \<Rightarrow> validate v)"

definition validate_Keys :: "json \<Rightarrow> Keys option" where
  "validate_Keys v =
     (case v of
        JObj d \<Rightarrow>
          Option.bind (req_str d ''Pk'') (\<lambda>pk.
          Option.bind (req_str d ''Sk'') (\<lambda>sk.
            Some \<lparr>Pk = pk, Sk = sk\<rparr>))
      | _ \<Rightarrow> None)"

definition validate_UserEnvelope :: "'w env \<Rightarrow> json \<Rightarrow> UserEnvelope option" where
  "validate_UserEnvelope E v =
     (case v of
        JObj d \<Rightarrow>
          Option.bind (req_str d ''id'') (\<lambda>i.
          Option.bind (req_field (email_value E) d ''email'') (\<lambda>e.
          Option.bind (opt_field UserRole_of d ''role'') (\<lambda>r.
          Option.bind (opt_field str_value d ''firstName'') (\<lambda>f.
          Option.bind (opt_field str_value d ''lastName'') (\<lambda>l.
          Option.bind (opt_field str_value d ''studentNumber'') (\<lambda>n.
          Option.bind (opt_field (bool_lax E) d ''is_active'') (\<lambda>a.
          Option.bind (opt_field str_value d ''created_at'') (\<lambda>c.
            Some \<lparr>ue_id = i, ue_email = e, role = r, firstName = f, lastName = l,
                  studentNumber = n, is_active = a, created_at = c\<rparr>))))))))
      | _ \<Rightarrow> None)"

definition literal_eventType :: "EventType \<Rightarrow> (string \<times> json) list \<Rightarrow> unit option" where
  \<comment> \<open>the field \<open>eventType: Literal[...]\<close> with its default\<close>
  "literal_eventType expected d =
     (case map_of d ''eventType'' of
        None \<Rightarrow> Some ()
      | Some v \<Rightarrow> if EventType_of v = Some expected then Some () else None)"

definition validate_UserRegistered :: "'w env \<Rightarrow> json \<Rightarrow> message option" where
  "validate_UserRegistered E v =
     (case v of
        JObj d \<Rightarrow>
          Option.bind (literal_eventType USER_REGISTERED d) (\<lambda>_.
          Option.bind (req_str d ''timestamp'') (\<lambda>t.
          Option.bind (req_field (validate_UserEnvelope E) d ''user'') (\<lambda>u.
          Option.bind (req_field validate_Keys d ''keys'') (\<lambda>k.
          Option.bind (req_str d ''table'') (\<lambda>tb.
          Option.bind (req_str d ''source'') (\<lambda>src.
            Some (UserRegistered
                    \<lparr>ur_timestamp = t, user = u, keys = k, table = tb, ur_source = src\<rparr>)))))))
      | _ \<Rightarrow> None)"

definition validate_StudentMagicLinkRequested :: "'w env \<Rightarrow> json \<Rightarrow> message option" where
  "validate_StudentMagicLinkRequested E v =
     (case v of
        JObj d \<Rightarrow>
          Option.bind (literal_eventType STUDENT_MAGIC_LINK_REQUESTED d) (\<lambda>_.
          Option.bind (req_str d ''timestamp'') (\<lambda>t.
          Option.bind (req_field (email_value E) d ''email'') (\<lambda>e.
          Option.bind (req_str d ''magicToken'') (\<lambda>tok.
          Option.bind (opt_field str_value d ''linkUrl'') (\<lambda>l.
          Option.bind (opt_field str_value d ''source'') (\<lambda>src.
            Some (StudentMagicLinkRequested
                    \<lparr>ml_timestamp = t, email = e, magicToken = tok, linkUrl = l,
                     ml_source = src\<rparr>)))))))
      | _ \<Rightarrow> None)"

subsection \<open>The registry\<close>

datatype model_cls = UserRegistered_cls | StudentMagicLinkRequested_cls

definition cls_name :: "model_cls \<Rightarrow> string" where
  "cls_name c =
     (case c of UserRegistered_cls \<Rightarrow> ''_UserRegistered''
      | StudentMagicLinkRequested_cls \<Rightarrow> ''_StudentMagicLinkRequested'')"

definition model_validate :: "'w env \<Rightarrow> model_cls \<Rightarrow> json \<Rightarrow> message option" where
  "model_validate E c =
     (case c of UserRegistered_cls \<Rightarrow> validate_UserRegistered E
      | StudentMagicLinkRequested_cls \<Rightarrow> validate_StudentMagicLinkRequested E)"

definition sqs_registry :: "(EventType \<times> model_cls) list" where
  \<comment> \<open>what the two \<open>@sqs_registry.register\<close> decorators leave in \<open>_registry\<close>\<close>
  "sqs_registry =
     [(USER_REGISTERED, UserRegistered_cls),
      (STUDENT_MAGIC_LINK_REQUESTED, StudentMagicLinkRequested_cls)]"

definition get_class :: "EventType \<Rightarrow> model_cls option" where
  "get_class event = map_of sqs_registry event"

definition parse :: "'w env \<Rightarrow> json \<Rightarrow> error + message" where
  "parse E data =
     (case py_in ''eventType'' data of
        Inl e \<Rightarrow> Inl e
      | Inr False \<Rightarrow> Inl (ValueError Missing_eventType)
      | Inr True \<Rightarrow>
          (case (case py_getitem data ''eventType'' of Inl _ \<Rightarrow> None | Inr v \<Rightarrow> EventType_of v) of
             None \<Rightarrow>
               \<comment> \<open>the message is formatted with \<open>data.get('eventType')\<close>\<close>
               (case data of
                  JObj d \<Rightarrow> Inl (ValueError (Unknown_eventType (dict_get d ''eventType'' JNull)))
                | _ \<Rightarrow> Inl AttributeError)
           | Some event \<Rightarrow>
               (case get_class event of
                  None \<Rightarrow> Inl (ValueError (No_model_registered (event_value event)))
                | Some model \<Rightarrow>
                    (case model_validate E model data of
                       None \<Rightarrow> Inl (ValueError (Failed_to_parse (cls_name model)))
                     | Some m \<Rightarrow> Inr m))))"

definition parse_sqs_message :: "'w env \<Rightarrow> json \<Rightarrow> error + message" where
  "parse_sqs_message E msg = parse E msg"

section \<open>The queue consumer (app.py)\<close>

text \<open>
  The first \<open>try\<close> block of the loop body: the body is decoded, and a decoded dict with
  a string under "Message" is replaced by what that string decodes to, when this is a dict
  with an "eventType". \<open>None\<close> is the \<open>except\<close> branch, which ends with
  \<open>continue\<close>.
\<close>

definition normalize :: "'w env \<Rightarrow> string \<Rightarrow> json option" where
  "normalize E body_str =
     (case json_loads E body_str of
        None \<Rightarrow> None
      | Some data \<Rightarrow>
          Some (case data of
                  JObj d \<Rightarrow>
                    (case map_of d ''Message'' of
                       Some (JStr m) \<Rightarrow>
                         (case json_loads E m of
                            Some (JObj inner) \<Rightarrow>
                              if map_of inner ''eventType'' \<noteq> None then JObj inner else data
                          | _ \<Rightarrow> data)
                     | _ \<Rightarrow> data)
                | _ \<Rightarrow> data))"

definition call_mailer :: "mail_call \<Rightarrow> ('w \<Rightarrow> (error + bool) \<times> 'w) \<Rightarrow> ('w, bool) prog" where
  "call_mailer c f s =
     (let (r, w') = f (world s) in (r, s\<lparr>mails := mails s @ [c], world := w'\<rparr>))"

definition nonempty :: "string option \<Rightarrow> string option" where
  \<comment> \<open>\<open>getattr(user, name, None)\<close> in a condition\<close>
  "nonempty x = (case x of None \<Rightarrow> None | Some s \<Rightarrow> if s = [] then None else Some s)"

definition display_name :: "UserEnvelope \<Rightarrow> string option" where
  "display_name u =
     (case (nonempty (firstName u), nonempty (lastName u)) of
        (Some f, Some l) \<Rightarrow> Some (f @ '' '' @ l)
      | (Some f, None) \<Rightarrow> Some f
      | (None, Some l) \<Rightarrow> Some l
      | (None, None) \<Rightarrow> None)"

definition send_welcome :: "'w env \<Rightarrow> UserRegisteredMessage \<Rightarrow> ('w, unit) prog" where
  "send_welcome E parsed =
     try_except
       (let u = user parsed; user_name = display_name u; r = map_option role_value (role u)
        in andthen (call_mailer (Welcome (ue_email u) user_name r)
                      (send_welcome_email E (ue_email u) user_name r)) (\<lambda>ok.
             if ok then emit (LogInfo (''Sent welcome email to '' @ ue_email u))
             else emit (LogError (''Failed to send welcome email to '' @ ue_email u))))
       (\<lambda>exc. emit (LogError ''Error handling USER_REGISTERED''))"

definition opt_json :: "string option \<Rightarrow> json" where
  "opt_json x = (case x of None \<Rightarrow> JNull | Some s \<Rightarrow> JStr s)"

definition register_user :: "'w env \<Rightarrow> UserRegisteredMessage \<Rightarrow> ('w, unit) prog" where
  "register_user E parsed =
     try_except
       (let u = user parsed
        in if model_truthy u then
             if ue_email u \<noteq> [] then
               (let new_user = JObj [(''id'', JStr (ue_id u)), (''email'', JStr (ue_email u)),
                                     (''firstName'', opt_json (firstName u)),
                                     (''lastName'', opt_json (lastName u))]
                in andthen (emit (Print (''New User to add :   '' @ py_str E new_user))) (\<lambda>_.
                   andthen (new_service E) (\<lambda>rapyd.
                   andthen (create_user E rapyd new_user (Some 60)) (\<lambda>_.
                   andthen (activate_pay E rapyd (JStr (ue_id u)) (Some 60)) (\<lambda>_.
                     emit (Print (''User added and activated :: ID:  '' @ ue_id u)))))))
             else return ()
           else return ())
       (\<lambda>exc. emit (LogError ''Error handling USER_REGISTERED - RapydMoney Registration''))"

definition send_magic_link :: "'w env \<Rightarrow> StudentMagicLinkRequestedMessage \<Rightarrow> ('w, unit) prog" where
  "send_magic_link E parsed =
     try_except
       (andthen (call_mailer (MagicLink (email parsed) (magicToken parsed) (linkUrl parsed))
                   (send_magic_link_email E (email parsed) (magicToken parsed) (linkUrl parsed)))
          (\<lambda>ok.
             if ok then emit (LogInfo (''Sent magic link email to '' @ email parsed))
             else emit (LogError (''Failed to send magic link email to '' @ email parsed))))
       (\<lambda>exc. emit (LogError ''Error handling STUDENT_MAGIC_LINK_REQUESTED''))"

text \<open>
  The routing compares \<open>parsed.eventType\<close> with each member in turn; a parsed message
  is of one of the two classes, so the final \<open>else\<close>, which logs a warning, has no
  message to run on.
\<close>

definition dispatch :: "'w env \<Rightarrow> message \<Rightarrow> ('w, unit) prog" where
  "dispatch E parsed =
     (case parsed of
        UserRegistered m \<Rightarrow> andthen (send_welcome E m) (\<lambda>_. register_user E m)
      | StudentMagicLinkRequested m \<Rightarrow> send_magic_link E m)"

definition handle_record :: "'w env \<Rightarrow> string \<Rightarrow> ('w, unit) prog" where
  \<comment> \<open>the body of the loop; \<open>continue\<close> ends it\<close>
  "handle_record E body_str =
     andthen (emit (LogInfo (''Got message: '' @ body_str))) (\<lambda>_.
       case normalize E body_str of
         None \<Rightarrow> emit (LogError ''Failed to parse SQS record body as JSON'')
       | Some data \<Rightarrow>
           (case parse_sqs_message E data of
              Inl exc \<Rightarrow> emit (LogError ''Failed to parse message with schema'')
            | Inr parsed \<Rightarrow> dispatch E parsed))"

text \<open>The loop: an exception that leaves the body of the loop ends the batch.\<close>

fun handle_my_queue :: "'w env \<Rightarrow> string list \<Rightarrow> ('w, unit) prog" where
  "handle_my_queue E [] = return ()"
| "handle_my_queue E (record_body # event) =
     andthen (handle_record E record_body) (\<lambda>_. handle_my_queue E event)"

section \<open>Notions used in the statements\<close>

text \<open>A provider call fails when the transport fails or the status is not 2xx.\<close>

definition failed :: "http_result \<Rightarrow> bool" where
  "failed r = (case r of RequestException \<Rightarrow> True | Response c _ \<Rightarrow> \<not> (200 \<le> c \<and> c < 300))"

definition client_error :: "http_request \<times> http_result \<Rightarrow> error" where
  \<comment> \<open>the error the client raises for a failed call\<close>
  "client_error x =
     (case snd x of
        RequestException \<Rightarrow> RapydMoneyAPIError (- 1) (url (fst x)) Network_error
      | Response c _ \<Rightarrow> RapydMoneyAPIError c (url (fst x)) API_Error)"

definition propagates :: "('w, 'a) prog \<Rightarrow> bool" where
  "propagates m =
     (\<forall>s. \<exists>new. exchanges (snd (m s)) = exchanges s @ new \<and>
        (\<forall>x \<in> set new. failed (snd x) \<longrightarrow> fst (m s) = Inl (client_error x)))"

text \<open>
  The balance normalization in the words of the specification: the entries of a name, and
  the balance of the last of them (zero when there is none).
\<close>

definition entry_named :: "string \<Rightarrow> json \<Rightarrow> bool" where
  "entry_named n t = (case t of JObj d \<Rightarrow> dict_get d ''name'' JNull = JStr n | _ \<Rightarrow> False)"

definition extracted :: "'w env \<Rightarrow> string \<Rightarrow> json list \<Rightarrow> decimal" where
  "extracted E n ts =
     (case rev (filter (entry_named n) ts) of
        JObj d # _ \<Rightarrow> token_balance E d
      | _ \<Rightarrow> Dec 0)"

definition finite_tokens :: "'w env \<Rightarrow> json \<Rightarrow> bool" where
  \<comment> \<open>no token of the response carries a special value as its balance\<close>
  "finite_tokens E data =
     (case balance_tokens data of
        JArr ts \<Rightarrow> (\<forall>t \<in> set ts. case t of JObj d \<Rightarrow> token_balance E d \<noteq> NonFinite | _ \<Rightarrow> True)
      | _ \<Rightarrow> True)"

text \<open>
  The success signal in the words of the specification: the response is a map whose
  "message" contains "successful", whatever the case of its letters.
\<close>

definition message_successful :: "'w env \<Rightarrow> json \<Rightarrow> bool" where
  "message_successful E data =
     (case data of
        JObj d \<Rightarrow> (case map_of d ''message'' of None \<Rightarrow> False | Some m \<Rightarrow> successful_message E m)
      | _ \<Rightarrow> False)"

text \<open>
  What the queue consumer is expected to do for a record: the call to the mailer for the
  message that the body decodes and validates to, if it does. A line "Got message" is
  logged for every record that the loop reaches.
\<close>

definition mail_of :: "message \<Rightarrow> mail_call" where
  "mail_of p =
     (case p of
        UserRegistered m \<Rightarrow>
          Welcome (ue_email (user m)) (display_name (user m)) (map_option role_value (role (user m)))
      | StudentMagicLinkRequested m \<Rightarrow> MagicLink (email m) (magicToken m) (linkUrl m))"

definition dispatched :: "'w env \<Rightarrow> string \<Rightarrow> mail_call option" where
  "dispatched E body_str =
     (case normalize E body_str of
        None \<Rightarrow> None
      | Some data \<Rightarrow>
          (case parse_sqs_message E data of Inl _ \<Rightarrow> None | Inr parsed \<Rightarrow> Some (mail_of parsed)))"

definition is_got :: "log \<Rightarrow> bool" where
  "is_got l = (case l of LogInfo t \<Rightarrow> take 13 t = ''Got message: '' | _ \<Rightarrow> False)"

text \<open>A step that calls no mailer and logs no "Got message" line.\<close>

definition keeps :: "('w, 'a) prog \<Rightarrow> bool" where
  "keeps m =
     (\<forall>s. mails (snd (m s)) = mails s \<and>
          (\<exists>new. logs (snd (m s)) = logs s @ new \<and> filter is_got new = []))"


section \<open>A concrete environment\<close>

text \<open>
  The runs below use a provider with a merchant M1 and two students S1 and S2, whose ZAR
  balances are 40.00 and 60.00 (S3 holds 0.01, the balance of S4 is reported as "NaN", and
  the balance of S5 is answered by a text). The library functions are given by their values on the
  arguments that occur; \<open>example_str\<close> is only printed.
\<close>

definition example_Decimal :: "string \<Rightarrow> decimal option" where
  "example_Decimal s =
     (if s = ''0'' then Some (Dec 0)
      else if s = ''12.5'' then Some (Dec (25 / 2))
      else if s = ''40.00'' then Some (Dec 40)
      else if s = ''60.00'' then Some (Dec 60)
      else if s = ''0.01'' then Some (Dec (1 / 100))
      else if s = ''NaN'' then Some NonFinite
      else None)"

definition example_str :: "json \<Rightarrow> string" where
  "example_str v =
     (case v of JNull \<Rightarrow> ''None'' | JBool b \<Rightarrow> (if b then ''True'' else ''False'')
      | JArr _ \<Rightarrow> ''[...]'' | JObj _ \<Rightarrow> ''{...}'' | _ \<Rightarrow> ''...'')"

definition party :: "string \<Rightarrow> json" where
  "party i =
     JObj [(''id'', JStr i), (''email'', JStr (i @ ''@example.org'')), (''firstName'', JStr ''F''),
           (''lastName'', JStr ''L''), (''publicKey'', JStr ''K''),
           (''paymentIdentifier'', JStr (''pay-'' @ i))]"

definition zar_tokens :: "string \<Rightarrow> json" where
  "zar_tokens b = JObj [(''tokens'', JArr [JObj [(''name'', JStr ''L ZAR Coin''), (''balance'', JStr b)]])]"

definition example_provider :: "http_result \<Rightarrow> http_request \<Rightarrow> nat \<Rightarrow> http_result \<times> nat" where
  \<comment> \<open>the world counts the requests served; the answer to a transfer is a parameter\<close>
  "example_provider transfer_result rq w =
     (let u = url rq
      in if u = ''https://provider.example/api/v1/users/M1''
           then (Response 200 (Json (JObj [(''user'', party ''M1'')])), Suc w)
         else if u = ''https://provider.example/api/v1/users/S1''
           then (Response 200 (Json (party ''S1'')), Suc w)
         else if u = ''https://provider.example/api/v1/S1/balance''
           then (Response 200 (Json (zar_tokens ''40.00'')), Suc w)
         else if u = ''https://provider.example/api/v1/S2/balance''
           then (Response 200 (Json (JObj [(''balance'', zar_tokens ''60.00'')])), Suc w)
         else if u = ''https://provider.example/api/v1/S3/balance''
           then (Response 200 (Json (zar_tokens ''0.01'')), Suc w)
         else if u = ''https://provider.example/api/v1/S4/balance''
           then (Response 200 (Json (zar_tokens ''NaN'')), Suc w)
         else if u = ''https://provider.example/api/v1/S5/balance''
           then (Response 200 (Text ''ok''), Suc w)
         else if u = ''https://provider.example/api/v1/recipient/pay-S1''
           then (Response 200 (Json (JObj [(''recipient'', JObj [(''name'', JStr ''F L'')])])), Suc w)
         else if u = ''https://provider.example/api/v1/transfer/S1''
           then (transfer_result, Suc w)
         else if u = ''https://provider.example/api/v1/transfer/M1''
           then (transfer_result, Suc w)
         else if u = ''https://provider.example/api/v1/mint''
           then (Response 200 Empty, Suc w)
         else (Response 404 Empty, Suc w))"

definition example_env :: "http_result \<Rightarrow> nat env" where
  "example_env transfer_result =
     \<lparr>json_loads = (\<lambda>s. None),
      str_nonstring = example_str,
      Decimal = example_Decimal,
      EmailStr = (\<lambda>s. if CHR ''@'' \<in> set s then Some s else None),
      bool_lax = (\<lambda>v. case v of JBool b \<Rightarrow> Some b | _ \<Rightarrow> None),
      provider = example_provider transfer_result,
      send_welcome_email = (\<lambda>to name r w. (Inr True, w)),
      send_magic_link_email = (\<lambda>to token link w. (Inr True, w)),
      RAPYD_MONEY_API_TOKEN = Some ''secret'',
      RAPYD_MONEY_BASE_URL = Some ''https://provider.example/api/v1/''\<rparr>"

definition failing_env :: "nat env" where
  \<comment> \<open>a provider that answers every request with status 500\<close>
  "failing_env = (example_env (Response 500 Empty))\<lparr>provider := (\<lambda>rq w. (Response 500 Empty, Suc w))\<rparr>"

definition example_service :: RapydMoneyService where
  "example_service =
     \<lparr>api_token = Some ''secret'', base_url = ''https://provider.example/api/v1'',
      default_timeout = 10\<rparr>"

definition s0 :: "nat state" where
  "s0 = \<lparr>exchanges = [], mails = [], logs = [], world = 0\<rparr>"

definition pay_body :: json where
  "pay_body = JObj [(''merchantId'', JStr ''M1''), (''studentId'', JStr ''S1''),
                    (''idempotency_key'', JStr ''k-1''), (''amount_cents'', JInt 5000)]"

definition can_pay_body :: "string \<Rightarrow> int \<Rightarrow> json" where
  "can_pay_body sid cents = JObj [(''studentId'', JStr sid), (''amount_cents'', JInt cents)]"

definition balance_request :: "string \<Rightarrow> http_request" where
  "balance_request sid =
     \<lparr>http_method = ''GET'', url = ''https://provider.example/api/v1/'' @ sid @ ''/balance'',
      headers = [(''Content-Type'', ''application/json''), (''Authorization'', ''Bearer secret'')],
      json_body = None, timeout = 10\<rparr>"

definition sponsor_body :: json where
  "sponsor_body = JObj [(''sponsorId'', JStr ''M1''), (''studentId'', JStr ''S1''),
                        (''idempotency_key'', JStr ''k-2''), (''amount_cents'', JInt 5000)]"

definition fund_body :: "string \<Rightarrow> json" where
  "fund_body sid = JObj [(''sponsorId'', JStr sid), (''amount_cents'', JInt 5000)]"

definition transfer_ok :: http_result where
  "transfer_ok = Response 200 (Json (JObj [(''message'', JStr ''Transfer successful'')]))"

definition transfer_declined :: "int \<Rightarrow> http_result" where
  "transfer_declined status =
     Response status (Json (JObj [(''message'', JStr ''Transfer failed: insufficient liquidity'')]))"

definition party_user :: "string \<Rightarrow> RapydMoneyUser" where
  "party_user i =
     \<lparr>user_id = i, user_email = i @ ''@example.org'', first_name = ''F'', last_name = ''L'',
      public_key = ''K'', payment_identifier = ''pay-'' @ i\<rparr>"

definition get_request :: "string \<Rightarrow> http_request" where
  "get_request path =
     \<lparr>http_method = ''GET'', url = ''https://provider.example/api/v1/'' @ path,
      headers = [(''Content-Type'', ''application/json''), (''Authorization'', ''Bearer secret'')],
      json_body = None, timeout = 10\<rparr>"

definition transfer_request :: "string \<Rightarrow> string \<Rightarrow> string \<Rightarrow> http_request" where
  "transfer_request payer_id payee key =
     \<lparr>http_method = ''POST'', url = ''https://provider.example/api/v1/transfer/'' @ payer_id,
      headers = [(''Content-Type'', ''application/json''), (''Authorization'', ''Bearer secret'')],
      json_body = Some (JObj [(''transactionAmount'', JFloat (Finite 50)),
                              (''transactionRecipient'', JStr payee),
                              (''transactionNotes'', JStr (''Idem_'' @ key))]),
      timeout = 60\<rparr>"

definition served :: "nat state \<Rightarrow> http_request \<Rightarrow> http_result \<Rightarrow> nat state" where
  \<comment> \<open>the state after one more request\<close>
  "served s rq res = s\<lparr>exchanges := exchanges s @ [(rq, res)], world := Suc (world s)\<rparr>"

text \<open>
  The bodies of the queue records of the examples, with the values that \<open>json.loads\<close>
  gives for them: a registration, the same registration wrapped by a notification relay
  (the text of the inner document is the string under "Message", with its quotes escaped
  in the outer text), a magic-link request, a registration whose timestamp is a number,
  and a wrapper around a text that is not JSON.
\<close>

definition registered_text :: string where
  \<open>registered_text =
     ''{"eventType": "USER_REGISTERED", "timestamp": "2025-08-08T14:43:25.029Z", "user": {"id": "u1", "email": "u1@example.org", "role": "merchant", "firstName": "Wikus", "lastName": "Schalkwyk"}, "keys": {"Pk": "MERCHANT#u1", "Sk": "USER"}, "table": "kudupay", "source": "auth.registerUser"}''\<close>

definition registered_json :: json where
  "registered_json =
     JObj [(''eventType'', JStr ''USER_REGISTERED''), (''timestamp'', JStr ''2025-08-08T14:43:25.029Z''),
           (''user'', JObj [(''id'', JStr ''u1''), (''email'', JStr ''u1@example.org''),
                            (''role'', JStr ''merchant''), (''firstName'', JStr ''Wikus''),
                            (''lastName'', JStr ''Schalkwyk'')]),
           (''keys'', JObj [(''Pk'', JStr ''MERCHANT#u1''), (''Sk'', JStr ''USER'')]),
           (''table'', JStr ''kudupay''), (''source'', JStr ''auth.registerUser'')]"


definition magic_text :: string where
  \<open>magic_text =
     ''{"eventType": "STUDENT_MAGIC_LINK_REQUESTED", "timestamp": "2025-08-08T15:00:00.000Z", "email": "s1@example.org", "magicToken": "tok-1"}''\<close>

definition magic_json :: json where
  "magic_json =
     JObj [(''eventType'', JStr ''STUDENT_MAGIC_LINK_REQUESTED''),
           (''timestamp'', JStr ''2025-08-08T15:00:00.000Z''), (''email'', JStr ''s1@example.org''),
           (''magicToken'', JStr ''tok-1'')]"

definition invalid_text :: string where
  \<open>invalid_text = ''{"eventType": "USER_REGISTERED", "timestamp": 1}''\<close>

definition invalid_json :: json where
  "invalid_json = JObj [(''eventType'', JStr ''USER_REGISTERED''), (''timestamp'', JInt 1)]"

definition json_escape :: "string \<Rightarrow> string" where
  \<comment> \<open>a backslash before every double quote\<close>
  \<open>json_escape t = concat (map (\<lambda>c. if c = CHR ''"'' then [CHR 0x5C, c] else [c]) t)\<close>

definition wrapped_text :: string where
  \<open>wrapped_text = ''{"Message": "'' @ json_escape registered_text @ ''"}''\<close>

definition hello_text :: string where
  \<open>hello_text = ''{"Message": "hello"}''\<close>

definition example_json_loads :: "string \<Rightarrow> json option" where
  "example_json_loads t =
     (if t = registered_text then Some registered_json
      else if t = magic_text then Some magic_json
      else if t = invalid_text then Some invalid_json
      else if t = wrapped_text then Some (JObj [(''Message'', JStr registered_text)])
      else if t = hello_text then Some (JObj [(''Message'', JStr ''hello'')])
      else None)"

definition queue_env :: "nat env" where
  \<comment> \<open>the SMTP server is down: the welcome mail raises\<close>
  "queue_env =
     (example_env (Response 200 Empty))
       \<lparr>json_loads := example_json_loads,
        send_welcome_email := (\<lambda>to name r w. (Inl (OtherException ''SMTP''), w))\<rparr>"

definition ten_records :: "string list" where
  "ten_records =
     [registered_text, magic_text, invalid_text, magic_text, wrapped_text, magic_text,
      registered_text, magic_text, ''not json'', registered_text]"

section \<open>Lemmas\<close>

subsection \<open>Sequencing\<close>

lemma andthen_lift_Inr [simp]: "andthen (lift (Inr x)) f = f x"
  by (rule ext) (simp add: andthen_def lift_def)

lemma andthen_lift_Inl [simp]: "andthen (lift (Inl e)) f = raise e"
  by (rule ext) (simp add: andthen_def lift_def raise_def)

lemma andthen_return [simp]: "andthen (return x) f = f x"
  by (rule ext) (simp add: andthen_def return_def)

lemma andthen_raise [simp]: "andthen (raise e) f = raise e"
  by (rule ext) (simp add: andthen_def raise_def)

lemma andthen_Inr: "m s = (Inr x, s') \<Longrightarrow> andthen m f s = f x s'"
  by (simp add: andthen_def)

lemma andthen_Inl: "m s = (Inl e, s') \<Longrightarrow> andthen m f s = (Inl e, s')"
  by (simp add: andthen_def)

subsection \<open>Evaluation of the float division\<close>

lemma round_double_eval:
  "q \<noteq> 0 \<Longrightarrow> floor_log2 \<bar>q\<bar> = e \<Longrightarrow> - 1022 \<le> e \<Longrightarrow> pow2 (e - 52) = u \<Longrightarrow>
   round_half_even (\<bar>q\<bar> / u) = m \<Longrightarrow> round_double q = sgn q * of_int m * u"
  by (simp add: round_double_def)

lemma floor_rat_numeral: "\<lfloor>(numeral a :: rat) / numeral b\<rfloor> = numeral a div numeral b"
  by (metis floor_divide_of_int_eq of_int_numeral)

lemma round_double_5000: "round_double 5000 = 5000"
proof -
  have e: "floor_log2 \<bar>5000\<bar> = 12" by (simp add: floor_log2_def bit_length.simps)
  have u: "pow2 (12 - 52) = 1 / 1099511627776" by (simp add: pow2_def)
  have m: "round_half_even (\<bar>5000\<bar> / (1 / 1099511627776)) = 5497558138880000"
    by (simp add: round_half_even_def)
  show ?thesis using round_double_eval [OF _ e _ u m] by simp
qed

lemma round_double_50: "round_double 50 = 50"
proof -
  have e: "floor_log2 \<bar>50\<bar> = 5" by (simp add: floor_log2_def bit_length.simps)
  have u: "pow2 (5 - 52) = 1 / 140737488355328" by (simp add: pow2_def)
  have m: "round_half_even (\<bar>50\<bar> / (1 / 140737488355328)) = 7036874417766400"
    by (simp add: round_half_even_def)
  show ?thesis using round_double_eval [OF _ e _ u m] by simp
qed

lemma truediv_100_5000: "truediv_100 (JInt 5000) = Inr (Finite 50)"
  by (simp add: truediv_100_def float_of_int_def round_double_5000 round_double_50 pow2_def)

lemma round_double_1: "round_double 1 = 1"
proof -
  have e: "floor_log2 \<bar>1\<bar> = 0" by (simp add: floor_log2_def bit_length.simps)
  have u: "pow2 (0 - 52) = 1 / 4503599627370496" by (simp add: pow2_def)
  have m: "round_half_even (\<bar>1\<bar> / (1 / 4503599627370496)) = 4503599627370496"
    by (simp add: round_half_even_def)
  show ?thesis using round_double_eval [OF _ e _ u m] by simp
qed

lemma round_double_hundredth: "round_double (1 / 100) = 5764607523034235 / 576460752303423488"
proof -
  have e: "floor_log2 \<bar>1 / 100\<bar> = - 7" by (simp add: floor_log2_def bit_length.simps)
  have u: "pow2 (- 7 - 52) = 1 / 576460752303423488" by (simp add: pow2_def)
  have m: "round_half_even (\<bar>1 / 100\<bar> / (1 / 576460752303423488)) = 5764607523034235"
    by (simp add: round_half_even_def floor_rat_numeral)
  show ?thesis using round_double_eval [OF _ e _ u m] by simp
qed

lemma truediv_100_1:
  "truediv_100 (JInt 1) = Inr (Finite (5764607523034235 / 576460752303423488))"
  by (simp add: truediv_100_def float_of_int_def round_double_1 round_double_hundredth pow2_def)

subsection \<open>Evaluation of a run\<close>

lemmas run_eval =
  handler_def api_pay_user_def api_can_pay_def api_fund_user_def api_sponsor_user_def
  body_get_def dict_get_def new_service_def create_rapydmoney_service_def
  example_env_def failing_env_def example_provider_def party_def zar_tokens_def s0_def
  pay_body_def sponsor_body_def fund_body_def transfer_ok_def transfer_declined_def
  can_pay_body_def balance_request_def party_user_def get_request_def transfer_request_def
  served_def example_service_def truthy_def
  get_user_def get_balance_def get_recipient_def do_transfer_def mint_def
  private_request_def request_url_def private_headers_def lstrip_def rstrip_def upper_def
  upper_char_def py_str_def RapydMoneyUser_from_api_def str_field_def List.map_filter_def
  andthen_def lift_def return_def raise_def emit_def model_truthy_def Let_def
  resp_successful_def py_in_def py_getitem_def successful_message_def lower_def lower_char_def
  RapydMoneyBalance_from_api_def balance_src_def balance_tokens_def token_balance_def
  model_validate_balance_def example_Decimal_def decimal_lt_float_def

subsection \<open>Provider errors are not caught\<close>

lemma propagates_return [intro!, simp]: "propagates (return x)"
  by (simp add: propagates_def return_def)

lemma propagates_raise [intro!, simp]: "propagates (raise e)"
  by (simp add: propagates_def raise_def)

lemma propagates_lift [intro!, simp]: "propagates (lift r)"
  by (simp add: propagates_def lift_def)

lemma propagates_emit [intro!, simp]: "propagates (emit l)"
  by (simp add: propagates_def emit_def)

lemma propagates_if [intro!]:
  "(c \<Longrightarrow> propagates a) \<Longrightarrow> (\<not> c \<Longrightarrow> propagates b) \<Longrightarrow> propagates (if c then a else b)"
  by simp

lemma propagates_andthen [intro!]:
  assumes "propagates m" and "\<And>x. propagates (f x)"
  shows "propagates (andthen m f)"
  unfolding propagates_def
proof
  fix s
  from assms(1) obtain new1 where
    n1: "exchanges (snd (m s)) = exchanges s @ new1" and
    f1: "\<forall>x \<in> set new1. failed (snd x) \<longrightarrow> fst (m s) = Inl (client_error x)"
    unfolding propagates_def by blast
  obtain r s1 where ms: "m s = (r, s1)" by (cases "m s")
  show "\<exists>new. exchanges (snd (andthen m f s)) = exchanges s @ new \<and>
          (\<forall>x \<in> set new. failed (snd x) \<longrightarrow> fst (andthen m f s) = Inl (client_error x))"
  proof (cases r)
    case (Inl e)
    with ms n1 f1 show ?thesis by (auto simp: andthen_def)
  next
    case (Inr a)
    from assms(2) obtain new2 where
      n2: "exchanges (snd (f a s1)) = exchanges s1 @ new2" and
      f2: "\<forall>x \<in> set new2. failed (snd x) \<longrightarrow> fst (f a s1) = Inl (client_error x)"
      unfolding propagates_def by blast
    from Inr ms f1 have ok1: "\<forall>x \<in> set new1. \<not> failed (snd x)" by auto
    from Inr ms n1 n2 f2 ok1 show ?thesis
      by (intro exI [of _ "new1 @ new2"]) (auto simp: andthen_def)
  qed
qed

lemma propagates_private_request [intro!, simp]:
  "propagates (private_request E svc meth path body tmo)"
  unfolding propagates_def
proof
  fix s
  show "\<exists>new. exchanges (snd (private_request E svc meth path body tmo s)) = exchanges s @ new \<and>
          (\<forall>x \<in> set new. failed (snd x) \<longrightarrow>
             fst (private_request E svc meth path body tmo s) = Inl (client_error x))"
    by (auto simp: private_request_def Let_def failed_def client_error_def
             split: prod.splits http_result.splits)
qed

lemma propagates_get_user [intro!, simp]: "propagates (get_user E svc uid tmo)"
  unfolding get_user_def
  by (intro propagates_andthen propagates_private_request)
     (auto split: json.splits option.splits)

lemma propagates_get_balance [intro!, simp]: "propagates (get_balance E svc uid tmo)"
  unfolding get_balance_def by (intro propagates_andthen) auto

lemma propagates_get_recipient [intro!, simp]: "propagates (get_recipient E svc pid tmo)"
  unfolding get_recipient_def
  by (intro propagates_andthen propagates_private_request)
     (auto split: json.splits option.splits)

lemma propagates_mint [intro!, simp]: "propagates (mint E svc d tmo)"
  unfolding mint_def by simp

lemma propagates_do_transfer [intro!, simp]: "propagates (do_transfer E svc a b c d)"
  unfolding do_transfer_def Let_def
  by (intro propagates_andthen propagates_private_request propagates_if) auto

lemma propagates_resp_successful [intro!, simp]: "propagates (resp_successful E resp)"
  unfolding resp_successful_def by (intro propagates_andthen propagates_if) auto

lemma propagates_new_service [intro!, simp]: "propagates (new_service E)"
  unfolding new_service_def by simp

lemma propagates_can_pay: "propagates (api_can_pay E body)"
  unfolding api_can_pay_def by (intro propagates_andthen propagates_if) auto

lemma propagates_pay_user: "propagates (api_pay_user E body)"
  unfolding api_pay_user_def by (intro propagates_andthen propagates_if) auto

lemma propagates_fund_user: "propagates (api_fund_user E body)"
  unfolding api_fund_user_def Let_def by (intro propagates_andthen propagates_if) auto

lemma propagates_sponsor_user: "propagates (api_sponsor_user E body)"
  unfolding api_sponsor_user_def by (intro propagates_andthen propagates_if) auto

text \<open>
  Claim C1, as amended. For every HTTP payment request (can-pay, pay-user, fund-user,
  sponsor-user), when a provider client call fails (transport failure or non-2xx status),
  the client raises its error and the handler does not catch it: the handler ends with
  that error, and no response body is returned.
\<close>

theorem provider_error_propagates:
  "\<exists>new. exchanges (snd (handler E r body s)) = exchanges s @ new \<and>
     (\<forall>x \<in> set new. failed (snd x) \<longrightarrow> fst (handler E r body s) = Inl (client_error x))"
proof -
  have "propagates (handler E r body)"
    by (cases r)
       (simp_all add: handler_def propagates_can_pay propagates_pay_user propagates_fund_user
          propagates_sponsor_user)
  then show ?thesis unfolding propagates_def by blast
qed

text \<open>
  A pay-user request against a provider that answers 500: the first lookup fails, and the
  handler ends with the client's error.
\<close>

theorem provider_error_propagates_witness:
  "exchanges (snd (handler failing_env Pay_user pay_body s0)) =
     exchanges s0 @
       [(\<lparr>http_method = ''GET'', url = ''https://provider.example/api/v1/users/M1'',
          headers = [(''Content-Type'', ''application/json''), (''Authorization'', ''Bearer secret'')],
          json_body = None, timeout = 10\<rparr>, Response 500 Empty)] \<and>
   failed (Response 500 Empty) \<and>
   fst (handler failing_env Pay_user pay_body s0) =
     Inl (RapydMoneyAPIError 500 ''https://provider.example/api/v1/users/M1'' API_Error)"
proof -
  let ?x = "(\<lparr>http_method = ''GET'', url = ''https://provider.example/api/v1/users/M1'',
          headers = [(''Content-Type'', ''application/json''), (''Authorization'', ''Bearer secret'')],
          json_body = None, timeout = 10\<rparr>, Response 500 Empty)"
  have ex: "exchanges (snd (handler failing_env Pay_user pay_body s0)) = exchanges s0 @ [?x]"
    by (simp add: run_eval truediv_100_5000)
  have f: "failed (snd ?x)" by (simp add: failed_def)
  from provider_error_propagates [of failing_env Pay_user pay_body s0] obtain new where
    n: "exchanges (snd (handler failing_env Pay_user pay_body s0)) = exchanges s0 @ new" and
    p: "\<forall>x \<in> set new. failed (snd x) \<longrightarrow>
          fst (handler failing_env Pay_user pay_body s0) = Inl (client_error x)"
    by blast
  from ex n have "new = [?x]" by simp
  with p f have "fst (handler failing_env Pay_user pay_body s0) = Inl (client_error ?x)" by simp
  with ex f show ?thesis by (simp add: client_error_def)
qed

theorem pay_user_provider_error_counterexample:
  "fst (handler failing_env Pay_user pay_body s0) =
     Inl (RapydMoneyAPIError 500 ''https://provider.example/api/v1/users/M1'' API_Error)"
  by (simp add: run_eval truediv_100_5000)

subsection \<open>CanPay\<close>

lemma can_pay_absent:
  assumes "body = JObj d" and "truediv_100 (dict_get d ''amount_cents'' JNull) = Inr amount"
      and "\<not> truthy (dict_get d ''studentId'' JNull)"
  shows "api_can_pay E body s = (Inr user_not_found, s)"
  using assms by (simp add: api_can_pay_def body_get_def return_def)

lemma can_pay_present:
  assumes "body = JObj d" and "truediv_100 (dict_get d ''amount_cents'' JNull) = Inr amount"
      and "truthy (dict_get d ''studentId'' JNull)"
      and "create_rapydmoney_service (RAPYD_MONEY_API_TOKEN E) (RAPYD_MONEY_BASE_URL E) = Inr rapyd"
      and "get_balance E rapyd (dict_get d ''studentId'' JNull) None s = (Inr bal, s')"
  shows "api_can_pay E body s =
           (case decimal_lt_float (zar bal) amount of
              Inl e \<Rightarrow> Inl e
            | Inr below \<Rightarrow> Inr (if below then insufficient_funds else can_pay_ok), s')"
  using assms
  by (simp add: api_can_pay_def body_get_def return_def new_service_def andthen_Inr model_truthy_def
        andthen_def lift_def split: sum.splits)

lemma can_pay_returns:
  assumes "api_can_pay E body s = (Inr v, s')"
  shows "v = insufficient_funds \<or> v = can_pay_ok \<or> v = user_not_found"
  using assms
  by (auto simp: api_can_pay_def andthen_def lift_def return_def model_truthy_def
        split: prod.splits sum.splits if_splits)

lemma example_service: 
  "create_rapydmoney_service (RAPYD_MONEY_API_TOKEN (example_env t))
     (RAPYD_MONEY_BASE_URL (example_env t)) = Inr example_service"
  by (simp add: example_env_def create_rapydmoney_service_def example_service_def rstrip_def)

lemma example_balance_S1:
  "get_balance (example_env t) example_service (JStr ''S1'') None s0 =
     (Inr \<lparr>zar = 40, usd = 0\<rparr>,
      s0\<lparr>exchanges := [(balance_request ''S1'', Response 200 (Json (zar_tokens ''40.00'')))],
         world := 1\<rparr>)"
  by (simp add: run_eval)

lemma example_balance_S2:
  "get_balance (example_env t) example_service (JStr ''S2'') None s0 =
     (Inr \<lparr>zar = 60, usd = 0\<rparr>,
      s0\<lparr>exchanges := [(balance_request ''S2'',
                          Response 200 (Json (JObj [(''balance'', zar_tokens ''60.00'')])))],
         world := 1\<rparr>)"
  by (simp add: run_eval)

text \<open>
  What CanPay does for a request whose amount_cents can be divided: it returns the
  "User not found" failure when studentId is absent (or empty, or otherwise false in a
  condition); when studentId is present and its balance is fetched, it returns
  "Insufficient funds" exactly when the ZAR balance is strictly less than the amount, the
  double that \<open>amount_cents / 100.0\<close> gives, and \<open>{result: true}\<close> otherwise; but the
  comparison of the balance with an amount that is NaN raises.
\<close>

lemma can_pay_outcomes:
  assumes "body = JObj d" and "truediv_100 (dict_get d ''amount_cents'' JNull) = Inr amount"
  shows "(\<not> truthy (dict_get d ''studentId'' JNull) \<longrightarrow>
            api_can_pay E body s = (Inr user_not_found, s)) \<and>
         (truthy (dict_get d ''studentId'' JNull) \<and>
          create_rapydmoney_service (RAPYD_MONEY_API_TOKEN E) (RAPYD_MONEY_BASE_URL E) = Inr rapyd \<and>
          get_balance E rapyd (dict_get d ''studentId'' JNull) None s = (Inr bal, s') \<longrightarrow>
            (amount = NaN \<longrightarrow> api_can_pay E body s = (Inl InvalidOperation, s')) \<and>
            (\<forall>r. amount = Finite r \<longrightarrow>
               api_can_pay E body s =
                 (Inr (if zar bal < r then insufficient_funds else can_pay_ok), s')) \<and>
            (\<forall>p. amount = Inf p \<longrightarrow>
               api_can_pay E body s = (Inr (if p then insufficient_funds else can_pay_ok), s')))"
proof (intro conjI impI allI)
  assume "\<not> truthy (dict_get d ''studentId'' JNull)"
  with assms show "api_can_pay E body s = (Inr user_not_found, s)" by (rule can_pay_absent)
next
  assume a: "truthy (dict_get d ''studentId'' JNull) \<and>
          create_rapydmoney_service (RAPYD_MONEY_API_TOKEN E) (RAPYD_MONEY_BASE_URL E) = Inr rapyd \<and>
          get_balance E rapyd (dict_get d ''studentId'' JNull) None s = (Inr bal, s')"
  assume "amount = NaN"
  with can_pay_present [OF assms, of E rapyd s bal s'] a
  show "api_can_pay E body s = (Inl InvalidOperation, s')"
    by (simp add: decimal_lt_float_def)
next
  fix r
  assume a: "truthy (dict_get d ''studentId'' JNull) \<and>
          create_rapydmoney_service (RAPYD_MONEY_API_TOKEN E) (RAPYD_MONEY_BASE_URL E) = Inr rapyd \<and>
          get_balance E rapyd (dict_get d ''studentId'' JNull) None s = (Inr bal, s')"
  assume "amount = Finite r"
  with can_pay_present [OF assms, of E rapyd s bal s'] a
  show "api_can_pay E body s = (Inr (if zar bal < r then insufficient_funds else can_pay_ok), s')"
    by (simp add: decimal_lt_float_def)
next
  fix p
  assume a: "truthy (dict_get d ''studentId'' JNull) \<and>
          create_rapydmoney_service (RAPYD_MONEY_API_TOKEN E) (RAPYD_MONEY_BASE_URL E) = Inr rapyd \<and>
          get_balance E rapyd (dict_get d ''studentId'' JNull) None s = (Inr bal, s')"
  assume "amount = Inf p"
  with can_pay_present [OF assms, of E rapyd s bal s'] a
  show "api_can_pay E body s = (Inr (if p then insufficient_funds else can_pay_ok), s')"
    by (simp add: decimal_lt_float_def)
qed

text \<open>
  The examples of the specification: 5000 cents against a balance of 40.00, and against
  60.00. The amount is a double, and the comparison with the decimal balance is exact:
  the double nearest to 1/100 is above 1/100, so a balance of exactly 0.01 does not cover
  1 cent.
\<close>

lemma can_pay_examples:
  "fst (api_can_pay (example_env t) (can_pay_body ''S1'' 5000) s0) = Inr insufficient_funds"
  "fst (api_can_pay (example_env t) (can_pay_body ''S2'' 5000) s0) = Inr can_pay_ok"
  "fst (api_can_pay (example_env t) (can_pay_body ''S3'' 1) s0) = Inr insufficient_funds"
  "fst (api_can_pay (example_env t)
          (JObj [(''studentId'', JStr ''S1''), (''amount_cents'', JFloat NaN)]) s0) =
     Inl InvalidOperation"
  by (simp_all add: run_eval truediv_100_5000 truediv_100_1 truediv_100_def [of "JFloat NaN"])

text \<open>
  Claim C3. CanPay returns a UserNotFound failure for every request whose studentId is
  absent, and for a request with studentId present whose balance is fetched it answers by
  comparing the ZAR balance with amount_cents / 100. The handler divides amount_cents
  before it tests studentId, where the three other handlers divide after the test of their
  ids: a request with neither field raises \<open>TypeError\<close> (\<open>None / 100.0\<close>) and returns no
  failure, while the same request to FundUser is answered, and CanPay itself answers
  "User not found" once amount_cents is a number.
\<close>

theorem can_pay_absent_student_raises:
  "api_can_pay (example_env (Response 200 Empty)) (JObj []) s0 = (Inl TypeError, s0) \<and>
   api_fund_user (example_env (Response 200 Empty)) (JObj []) s0 = (Inr user_cannot_pay, s0) \<and>
   api_can_pay (example_env (Response 200 Empty)) (JObj [(''amount_cents'', JInt 5000)]) s0 =
     (Inr user_not_found, s0)"
proof -
  have "api_can_pay (example_env (Response 200 Empty)) (JObj []) s0 = (Inl TypeError, s0)"
    by (simp add: api_can_pay_def body_get_def dict_get_def truediv_100_def andthen_def lift_def
          raise_def)
  moreover have "api_fund_user (example_env (Response 200 Empty)) (JObj []) s0 =
      (Inr user_cannot_pay, s0)"
    by (simp add: api_fund_user_def body_get_def dict_get_def truthy_def andthen_def lift_def
          return_def)
  moreover have "api_can_pay (example_env (Response 200 Empty))
      (JObj [(''amount_cents'', JInt 5000)]) s0 = (Inr user_not_found, s0)"
  proof (rule can_pay_absent [OF refl])
    show "truediv_100 (dict_get [(''amount_cents'', JInt 5000)] ''amount_cents'' JNull) =
        Inr (Finite 50)"
      by (simp add: dict_get_def truediv_100_5000)
    show "\<not> truthy (dict_get [(''amount_cents'', JInt 5000)] ''studentId'' JNull)"
      by (simp add: dict_get_def truthy_def)
  qed
  ultimately show ?thesis by (intro conjI)
qed

subsection \<open>Balance normalization\<close>

lemma entry_named_simps [simp]:
  "entry_named n (JObj d) = (dict_get d ''name'' JNull = JStr n)"
  "entry_named n JNull = False"
  "entry_named n (JBool b) = False"
  "entry_named n (JInt i) = False"
  "entry_named n (JFloat f) = False"
  "entry_named n (JStr x) = False"
  "entry_named n (JArr xs) = False"
  by (simp_all add: entry_named_def)

lemma extracted_Nil [simp]: "extracted E n [] = Dec 0"
  by (simp add: extracted_def)

lemma extracted_Cons:
  "extracted E n (t # ts) =
     (if filter (entry_named n) ts = [] then
        (case t of JObj d \<Rightarrow> if entry_named n t then token_balance E d else Dec 0 | _ \<Rightarrow> Dec 0)
      else extracted E n ts)"
proof (cases "rev (filter (entry_named n) ts)")
  case Nil
  then have "filter (entry_named n) ts = []" by simp
  then show ?thesis by (cases t) (simp_all add: extracted_def)
next
  case (Cons y ys)
  then have "filter (entry_named n) ts \<noteq> []" by auto
  with Cons show ?thesis by (simp add: extracted_def)
qed

text \<open>The loop keeps, for each of the two names, the balance of the last entry of that name.\<close>

lemma scan_tokens_extracted:
  "scan_tokens E ts (z, u) =
     (if filter (entry_named ''L ZAR Coin'') ts = [] then z else extracted E ''L ZAR Coin'' ts,
      if filter (entry_named ''L USD Coin'') ts = [] then u else extracted E ''L USD Coin'' ts)"
proof (induction ts arbitrary: z u)
  case Nil
  show ?case by simp
next
  case (Cons t ts)
  show ?case
  proof (cases t)
    case (JObj d)
    then show ?thesis
      by (simp add: Cons.IH extracted_Cons Let_def)
  qed (simp_all add: Cons.IH extracted_Cons)
qed

lemma extracted_absent: "filter (entry_named n) ts = [] \<Longrightarrow> extracted E n ts = Dec 0"
  by (simp add: extracted_def)

lemma scan_tokens_from_zero:
  "scan_tokens E ts (Dec 0, Dec 0) = (extracted E ''L ZAR Coin'' ts, extracted E ''L USD Coin'' ts)"
  by (simp add: scan_tokens_extracted extracted_absent)

lemma from_api_tokens:
  assumes "balance_tokens data = JArr ts"
  shows "RapydMoneyBalance_from_api E data =
           model_validate_balance (extracted E ''L ZAR Coin'' ts, extracted E ''L USD Coin'' ts)"
  using assms by (simp add: RapydMoneyBalance_from_api_def scan_tokens_from_zero)




lemma get_balance_run:
  assumes "private_request E svc ''GET'' (''/'' @ py_str E uid @ ''/balance'') None tmo s = (Inr data, s')"
  shows "get_balance E svc uid tmo s = (RapydMoneyBalance_from_api E (balance_src data), s')"
  using assms by (simp add: get_balance_def andthen_Inr lift_def)

lemma from_api_outcome:
  "RapydMoneyBalance_from_api E data = Inl ValidationError \<or>
   (\<exists>bal. RapydMoneyBalance_from_api E data = Inr bal)"
  by (auto simp: RapydMoneyBalance_from_api_def model_validate_balance_def
        split: json.splits prod.splits decimal.splits)

lemma extracted_finite:
  assumes "\<forall>t \<in> set ts. case t of JObj d \<Rightarrow> token_balance E d \<noteq> NonFinite | _ \<Rightarrow> True"
  shows "extracted E n ts \<noteq> NonFinite"
proof (cases "rev (filter (entry_named n) ts)")
  case Nil
  then show ?thesis by (simp add: extracted_def)
next
  case (Cons y ys)
  then have "y \<in> set (filter (entry_named n) ts)" by (metis list.set_intros(1) set_rev)
  then have "y \<in> set ts" by simp
  with assms Cons show ?thesis
    by (cases y) (auto simp: extracted_def)
qed

lemma from_api_finite:
  assumes "finite_tokens E data"
  shows "\<exists>bal. RapydMoneyBalance_from_api E data = Inr bal"
proof (cases "balance_tokens data")
  case (JArr ts)
  with assms have fin: "\<forall>t \<in> set ts. case t of JObj d \<Rightarrow> token_balance E d \<noteq> NonFinite | _ \<Rightarrow> True"
    by (simp add: finite_tokens_def)
  obtain z where z: "extracted E ''L ZAR Coin'' ts = Dec z"
    using extracted_finite [OF fin, of "''L ZAR Coin''"] by (cases "extracted E ''L ZAR Coin'' ts") auto
  obtain u where u: "extracted E ''L USD Coin'' ts = Dec u"
    using extracted_finite [OF fin, of "''L USD Coin''"] by (cases "extracted E ''L USD Coin'' ts") auto
  show ?thesis
    by (simp add: from_api_tokens [OF JArr] z u model_validate_balance_def)
qed (simp_all add: RapydMoneyBalance_from_api_def model_validate_balance_def)

lemma from_api_not_dict:
  "\<not> is_dict data \<Longrightarrow> RapydMoneyBalance_from_api E (balance_src data) = Inr \<lparr>zar = 0, usd = 0\<rparr>"
  by (cases data)
     (simp_all add: is_dict_def balance_src_def RapydMoneyBalance_from_api_def balance_tokens_def
        dict_get_def model_validate_balance_def)






text \<open>
  What \<open>get_balance\<close> gives once the provider call has returned: a balance object (zar
  and usd at zero where the response has no such token, or is no map), which is true in a
  condition, or the validation error of a token balance that is a special value; it is the
  object when no token has such a balance. In CanPay the branch of a false balance is
  never taken: CanPay never returns \<open>None\<close>, any value it returns is one of its three
  result maps, and for a request with studentId present whose \<open>get_balance\<close> call
  returns it returns "Insufficient funds" or \<open>{result: true}\<close>, or the comparison
  with an amount that is NaN raises.
\<close>

lemma get_balance_outcomes:
  "(private_request E svc ''GET'' (''/'' @ py_str E uid @ ''/balance'') None tmo s = (Inr data, s') \<longrightarrow>
      (\<exists>bal. get_balance E svc uid tmo s = (Inr bal, s') \<and> model_truthy bal) \<or>
      get_balance E svc uid tmo s = (Inl ValidationError, s')) \<and>
   (private_request E svc ''GET'' (''/'' @ py_str E uid @ ''/balance'') None tmo s = (Inr data, s') \<and>
    finite_tokens E (balance_src data) \<longrightarrow>
      (\<exists>bal. get_balance E svc uid tmo s = (Inr bal, s') \<and> model_truthy bal)) \<and>
   (private_request E svc ''GET'' (''/'' @ py_str E uid @ ''/balance'') None tmo s = (Inr data, s') \<and>
    \<not> is_dict data \<longrightarrow>
      get_balance E svc uid tmo s = (Inr \<lparr>zar = 0, usd = 0\<rparr>, s')) \<and>
   fst (api_can_pay E body s) \<noteq> Inr JNull \<and>
   (api_can_pay E body s = (Inr v, s'') \<longrightarrow>
      v = insufficient_funds \<or> v = can_pay_ok \<or> v = user_not_found) \<and>
   (body = JObj d \<and> truediv_100 (dict_get d ''amount_cents'' JNull) = Inr amount \<and>
    truthy (dict_get d ''studentId'' JNull) \<and>
    create_rapydmoney_service (RAPYD_MONEY_API_TOKEN E) (RAPYD_MONEY_BASE_URL E) = Inr rapyd \<and>
    get_balance E rapyd (dict_get d ''studentId'' JNull) None s = (Inr b, s'') \<longrightarrow>
      fst (api_can_pay E body s) = Inr insufficient_funds \<or>
      fst (api_can_pay E body s) = Inr can_pay_ok \<or>
      amount = NaN \<and> fst (api_can_pay E body s) = Inl InvalidOperation)"
proof (intro conjI impI)
  assume run: "private_request E svc ''GET'' (''/'' @ py_str E uid @ ''/balance'') None tmo s = (Inr data, s')"
  from from_api_outcome [of E "balance_src data"]
  show "(\<exists>bal. get_balance E svc uid tmo s = (Inr bal, s') \<and> model_truthy bal) \<or>
        get_balance E svc uid tmo s = (Inl ValidationError, s')"
    by (auto simp: get_balance_run [OF run] model_truthy_def)
next
  assume "private_request E svc ''GET'' (''/'' @ py_str E uid @ ''/balance'') None tmo s = (Inr data, s') \<and>
    finite_tokens E (balance_src data)"
  then have run: "private_request E svc ''GET'' (''/'' @ py_str E uid @ ''/balance'') None tmo s = (Inr data, s')"
    and fin: "finite_tokens E (balance_src data)" by simp_all
  from from_api_finite [OF fin]
  show "\<exists>bal. get_balance E svc uid tmo s = (Inr bal, s') \<and> model_truthy bal"
    by (auto simp: get_balance_run [OF run] model_truthy_def)
next
  assume "private_request E svc ''GET'' (''/'' @ py_str E uid @ ''/balance'') None tmo s = (Inr data, s') \<and>
    \<not> is_dict data"
  then show "get_balance E svc uid tmo s = (Inr \<lparr>zar = 0, usd = 0\<rparr>, s')"
    by (simp add: get_balance_run from_api_not_dict)
next
  show "fst (api_can_pay E body s) \<noteq> Inr JNull"
  proof
    assume "fst (api_can_pay E body s) = Inr JNull"
    then have "api_can_pay E body s = (Inr JNull, snd (api_can_pay E body s))"
      by (metis prod.collapse)
    from can_pay_returns [OF this] show False
      by (simp add: insufficient_funds_def can_pay_ok_def user_not_found_def)
  qed
next
  assume "api_can_pay E body s = (Inr v, s'')"
  then show "v = insufficient_funds \<or> v = can_pay_ok \<or> v = user_not_found"
    by (rule can_pay_returns)
next
  assume "body = JObj d \<and> truediv_100 (dict_get d ''amount_cents'' JNull) = Inr amount \<and>
    truthy (dict_get d ''studentId'' JNull) \<and>
    create_rapydmoney_service (RAPYD_MONEY_API_TOKEN E) (RAPYD_MONEY_BASE_URL E) = Inr rapyd \<and>
    get_balance E rapyd (dict_get d ''studentId'' JNull) None s = (Inr b, s'')"
  then have "api_can_pay E body s =
           (case decimal_lt_float (zar b) amount of
              Inl e \<Rightarrow> Inl e
            | Inr below \<Rightarrow> Inr (if below then insufficient_funds else can_pay_ok), s'')"
    using can_pay_present by blast
  then show "fst (api_can_pay E body s) = Inr insufficient_funds \<or>
      fst (api_can_pay E body s) = Inr can_pay_ok \<or>
      amount = NaN \<and> fst (api_can_pay E body s) = Inl InvalidOperation"
    by (cases amount) (simp_all add: decimal_lt_float_def)
qed

text \<open>
  Claim C10. \<open>get_balance\<close> never returns an absent or false value: whenever the provider
  call returns, it produces a balance object, with zar and usd at zero as needed.
  \<open>RapydMoneyBalance.from_api\<close> converts each token balance inside a \<open>try\<close> block
  and takes zero where the conversion raises, as it does for the balance "n/a". The
  balance "NaN" passes the conversion, and the validation of the balance object then
  rejects it: the provider call has returned, and \<open>get_balance\<close> raises
  \<open>ValidationError\<close> and produces no object.
\<close>

theorem get_balance_nan_token_raises:
  "private_request (example_env (Response 200 Empty)) example_service ''GET'' ''/S4/balance'' None None s0 =
     (Inr (zar_tokens ''NaN''),
      s0\<lparr>exchanges := [(balance_request ''S4'', Response 200 (Json (zar_tokens ''NaN'')))],
         world := 1\<rparr>) \<and>
   get_balance (example_env (Response 200 Empty)) example_service (JStr ''S4'') None s0 =
     (Inl ValidationError,
      s0\<lparr>exchanges := [(balance_request ''S4'', Response 200 (Json (zar_tokens ''NaN'')))],
         world := 1\<rparr>) \<and>
   fst (api_can_pay (example_env (Response 200 Empty)) (can_pay_body ''S4'' 5000) s0) =
     Inl ValidationError \<and>
   RapydMoneyBalance_from_api (example_env (Response 200 Empty)) (zar_tokens ''n/a'') =
     Inr \<lparr>zar = 0, usd = 0\<rparr>"
  by (simp add: run_eval truediv_100_5000)

subsection \<open>The transfer\<close>

lemma upper_POST [simp]: "upper ''POST'' = ''POST''"
  by (simp add: upper_def upper_char_def)

lemma request_url_transfer [simp]:
  "request_url svc (''/transfer/'' @ x) = base_url svc @ ''/transfer/'' @ x"
  by (simp add: request_url_def lstrip_def)


lemma private_request_world_only:
  "private_request E svc meth path body tmo (s\<lparr>logs := l\<rparr>) =
     (fst (private_request E svc meth path body tmo s),
      (snd (private_request E svc meth path body tmo s))\<lparr>logs := l\<rparr>)"
  by (simp add: private_request_def Let_def split: prod.splits http_result.splits)


text \<open>What \<open>do_transfer\<close> returns, by the decoded response of the provider.\<close>

lemma do_transfer_result:
  assumes "private_request E svc ''POST'' (''/transfer/'' @ payer_id)
             (Some (JObj [(''transactionAmount'', JFloat amount), (''transactionRecipient'', JStr payee),
                          (''transactionNotes'', JStr trx_id)])) (Some 60) s = (Inr data, s')"
  shows "do_transfer E svc payer_id payee amount trx_id s =
           (if message_successful E data then (Inr data, s')
            else if is_dict data \<or> \<not> truthy data then (Inr (JBool False), s')
            else (case py_in ''message'' data of
                    Inl e \<Rightarrow> (Inl e, s')
                  | Inr False \<Rightarrow> (Inr (JBool False), s')
                  | Inr True \<Rightarrow> (Inl TypeError, s')))"
  using assms
  by (cases data)
     (auto simp: do_transfer_def Let_def andthen_Inr message_successful_def is_dict_def truthy_def
        py_in_def py_getitem_def lift_def return_def raise_def andthen_def
        split: option.splits)

lemma resp_successful_data:
  "message_successful E data \<Longrightarrow> resp_successful E data s = (Inr True, s)"
  by (cases data)
     (auto simp: resp_successful_def message_successful_def truthy_def py_in_def py_getitem_def
        return_def split: option.splits)

lemma resp_successful_False: "resp_successful E (JBool False) s = (Inr False, s)"
  by (simp add: resp_successful_def truthy_def return_def)

text \<open>The two transfer handlers from the point where the recipient is resolved.\<close>

lemma pay_user_reach:
  assumes "body = JObj d"
      and "truthy (dict_get d ''merchantId'' JNull)" and "truthy (dict_get d ''studentId'' JNull)"
      and "create_rapydmoney_service (RAPYD_MONEY_API_TOKEN E) (RAPYD_MONEY_BASE_URL E) = Inr rapyd"
      and "truediv_100 (dict_get d ''amount_cents'' JNull) = Inr amount"
      and "get_user E rapyd (dict_get d ''merchantId'' JNull) None s = (Inr merchant_user, s2)"
      and "get_user E rapyd (dict_get d ''studentId'' JNull) None s2 = (Inr student_user, s3)"
      and "get_recipient E rapyd (payment_identifier student_user) None s3 = (Inr recipient, s4)"
      and "truthy recipient"
  shows "api_pay_user E body s =
           (case do_transfer E rapyd (user_id student_user) (payment_identifier merchant_user) amount
                   (''Idem_'' @ py_str E (dict_get d ''idempotency_key'' JNull)) s4 of
              (Inl e, s5) \<Rightarrow> (Inl e, s5)
            | (Inr resp, s5) \<Rightarrow>
                (case resp_successful E resp s5 of
                   (Inl e, s6) \<Rightarrow> (Inl e, s6)
                 | (Inr ok, s6) \<Rightarrow>
                     if ok then (Inr transfer_successful, s6\<lparr>logs := logs s6 @ [Print ''Successful transfer'']\<rparr>)
                     else (Inr transfer_failed,
                           s6\<lparr>logs := logs s6 @ [Print ''Failed to transfer funds to student'']\<rparr>)))"
  using assms
  by (simp add: api_pay_user_def body_get_def new_service_def andthen_Inr model_truthy_def)
     (simp add: andthen_def return_def emit_def split: prod.splits sum.splits)

lemma get_user_logs:
  "get_user E svc uid tmo (s\<lparr>logs := l\<rparr>) =
     (fst (get_user E svc uid tmo s), (snd (get_user E svc uid tmo s))\<lparr>logs := l\<rparr>)"
  by (simp add: get_user_def andthen_def private_request_world_only lift_def raise_def
        split: prod.splits sum.splits json.splits option.splits)

lemma sponsor_user_reach:
  assumes "body = JObj d"
      and "truthy (dict_get d ''sponsorId'' JNull)" and "truthy (dict_get d ''studentId'' JNull)"
      and "create_rapydmoney_service (RAPYD_MONEY_API_TOKEN E) (RAPYD_MONEY_BASE_URL E) = Inr rapyd"
      and "truediv_100 (dict_get d ''amount_cents'' JNull) = Inr amount"
      and "get_user E rapyd (dict_get d ''sponsorId'' JNull) None
             (s\<lparr>logs := logs s @ [Print (''Incoming sponsor transfer  request: '' @ py_str E body)]\<rparr>) =
           (Inr sponsor_user, s2)"
      and "get_user E rapyd (dict_get d ''studentId'' JNull) None s2 = (Inr student_user, s3)"
      and "get_recipient E rapyd (payment_identifier student_user) None s3 = (Inr recipient, s4)"
      and "truthy recipient"
  shows "api_sponsor_user E body s =
           (case do_transfer E rapyd (user_id sponsor_user) (payment_identifier student_user) amount
                   (''Idem_'' @ py_str E (dict_get d ''idempotency_key'' JNull)) s4 of
              (Inl e, s5) \<Rightarrow> (Inl e, s5)
            | (Inr resp, s5) \<Rightarrow>
                (case resp_successful E resp s5 of
                   (Inl e, s6) \<Rightarrow> (Inl e, s6)
                 | (Inr ok, s6) \<Rightarrow>
                     if ok then (Inr transfer_successful, s6\<lparr>logs := logs s6 @ [Print ''Successful transfer'']\<rparr>)
                     else (Inr transfer_failed,
                           s6\<lparr>logs := logs s6 @ [Print ''Failed to transfer funds to student'']\<rparr>)))"
  using assms
  by (simp add: api_sponsor_user_def body_get_def new_service_def andthen_Inr model_truthy_def
        emit_def)
     (simp add: andthen_def return_def emit_def split: prod.splits sum.splits)



lemma transfer_tail_result:
  assumes run: "private_request E svc ''POST'' (''/transfer/'' @ payer_id)
             (Some (JObj [(''transactionAmount'', JFloat amount), (''transactionRecipient'', JStr payee),
                          (''transactionNotes'', JStr trx_id)])) (Some 60) s4 = (Inr data, s5)"
    and out: "out = (case do_transfer E svc payer_id payee amount trx_id s4 of
       (Inl e, s5) \<Rightarrow> (Inl e, s5)
     | (Inr resp, s5) \<Rightarrow>
         (case resp_successful E resp s5 of
            (Inl e, s6) \<Rightarrow> (Inl e, s6)
          | (Inr ok, s6) \<Rightarrow>
              if ok then (Inr transfer_successful, s6\<lparr>logs := logs s6 @ l1\<rparr>)
              else (Inr transfer_failed, s6\<lparr>logs := logs s6 @ l2\<rparr>)))"
  shows "(fst out = Inr transfer_successful \<longleftrightarrow> message_successful E data) \<and>
         ((is_dict data \<or> \<not> truthy data) \<and> \<not> message_successful E data \<longrightarrow>
            fst out = Inr transfer_failed)"
proof -
  have ne: "transfer_failed \<noteq> transfer_successful"
    by (simp add: transfer_failed_def transfer_successful_def)
  show ?thesis
    unfolding out do_transfer_result [OF run]
    using ne
    by (auto simp: resp_successful_data resp_successful_False split: sum.splits bool.splits)
qed


lemma example_get_user_M1:
  "get_user (example_env t) example_service (JStr ''M1'') None s =
     (Inr (party_user ''M1''),
      served s (get_request ''users/M1'') (Response 200 (Json (JObj [(''user'', party ''M1'')]))))"
  by (simp add: run_eval)

lemma example_get_user_S1:
  "get_user (example_env t) example_service (JStr ''S1'') None s =
     (Inr (party_user ''S1''), served s (get_request ''users/S1'') (Response 200 (Json (party ''S1''))))"
  by (simp add: run_eval)

lemma example_get_recipient:
  "get_recipient (example_env t) example_service (payment_identifier (party_user ''S1'')) None s =
     (Inr (JObj [(''name'', JStr ''F L'')]),
      served s (get_request ''recipient/pay-S1'')
        (Response 200 (Json (JObj [(''recipient'', JObj [(''name'', JStr ''F L'')])]))))"
  by (simp add: run_eval)


text \<open>
  Claim C2, as amended. For every PayUser (and SponsorUser) request with both party ids
  present, both parties resolved and the recipient resolved, whose transfer call returns
  (a 2xx response): the operation returns \<open>{result: true}\<close> if and only if the decoded
  response is a map whose "message" contains "successful", whatever the case of its
  letters; for a response that is a map without such a message (no "message" key, or a
  message without that substring) or that is false in a condition, it returns
  \<open>{result: false}\<close> with the transfer-failed message.
\<close>

theorem transfer_outcome:
  assumes "r = Pay_user \<or> r = Sponsor_user"
      and "body = JObj d"
      and "first_id = dict_get d (if r = Pay_user then ''merchantId'' else ''sponsorId'') JNull"
      and "truthy first_id" and "truthy (dict_get d ''studentId'' JNull)"
      and "create_rapydmoney_service (RAPYD_MONEY_API_TOKEN E) (RAPYD_MONEY_BASE_URL E) = Inr rapyd"
      and "truediv_100 (dict_get d ''amount_cents'' JNull) = Inr amount"
      and "start = (if r = Pay_user then s
                    else s\<lparr>logs := logs s @
                           [Print (''Incoming sponsor transfer  request: '' @ py_str E body)]\<rparr>)"
      and "get_user E rapyd first_id None start = (Inr first_user, s2)"
      and "get_user E rapyd (dict_get d ''studentId'' JNull) None s2 = (Inr student_user, s3)"
      and "get_recipient E rapyd (payment_identifier student_user) None s3 = (Inr recipient, s4)"
      and "truthy recipient"
      and "payer = (if r = Pay_user then student_user else first_user)"
      and "payee = (if r = Pay_user then first_user else student_user)"
      and "private_request E rapyd ''POST'' (''/transfer/'' @ user_id payer)
             (Some (JObj [(''transactionAmount'', JFloat amount),
                          (''transactionRecipient'', JStr (payment_identifier payee)),
                          (''transactionNotes'',
                           JStr (''Idem_'' @ py_str E (dict_get d ''idempotency_key'' JNull)))]))
             (Some 60) s4 = (Inr data, s5)"
  shows "(fst (handler E r body s) = Inr transfer_successful \<longleftrightarrow> message_successful E data) \<and>
         ((is_dict data \<or> \<not> truthy data) \<and> \<not> message_successful E data \<longrightarrow>
            fst (handler E r body s) = Inr transfer_failed)"
  using assms(1)
proof
  assume r: "r = Pay_user"
  with assms have h: "handler E r body s =
           (case do_transfer E rapyd (user_id student_user) (payment_identifier first_user) amount
                   (''Idem_'' @ py_str E (dict_get d ''idempotency_key'' JNull)) s4 of
              (Inl e, s5) \<Rightarrow> (Inl e, s5)
            | (Inr resp, s5) \<Rightarrow>
                (case resp_successful E resp s5 of
                   (Inl e, s6) \<Rightarrow> (Inl e, s6)
                 | (Inr ok, s6) \<Rightarrow>
                     if ok then (Inr transfer_successful, s6\<lparr>logs := logs s6 @ [Print ''Successful transfer'']\<rparr>)
                     else (Inr transfer_failed,
                           s6\<lparr>logs := logs s6 @ [Print ''Failed to transfer funds to student'']\<rparr>)))"
    by (simp add: handler_def pay_user_reach)
  from r assms(13-15) have run: "private_request E rapyd ''POST'' (''/transfer/'' @ user_id student_user)
             (Some (JObj [(''transactionAmount'', JFloat amount),
                          (''transactionRecipient'', JStr (payment_identifier first_user)),
                          (''transactionNotes'',
                           JStr (''Idem_'' @ py_str E (dict_get d ''idempotency_key'' JNull)))]))
             (Some 60) s4 = (Inr data, s5)"
    by simp
  from transfer_tail_result [OF run h] show ?thesis .
next
  assume r: "r = Sponsor_user"
  with assms have h: "handler E r body s =
           (case do_transfer E rapyd (user_id first_user) (payment_identifier student_user) amount
                   (''Idem_'' @ py_str E (dict_get d ''idempotency_key'' JNull)) s4 of
              (Inl e, s5) \<Rightarrow> (Inl e, s5)
            | (Inr resp, s5) \<Rightarrow>
                (case resp_successful E resp s5 of
                   (Inl e, s6) \<Rightarrow> (Inl e, s6)
                 | (Inr ok, s6) \<Rightarrow>
                     if ok then (Inr transfer_successful, s6\<lparr>logs := logs s6 @ [Print ''Successful transfer'']\<rparr>)
                     else (Inr transfer_failed,
                           s6\<lparr>logs := logs s6 @ [Print ''Failed to transfer funds to student'']\<rparr>)))"
    by (simp add: handler_def sponsor_user_reach)
  from r assms(13-15) have run: "private_request E rapyd ''POST'' (''/transfer/'' @ user_id first_user)
             (Some (JObj [(''transactionAmount'', JFloat amount),
                          (''transactionRecipient'', JStr (payment_identifier student_user)),
                          (''transactionNotes'',
                           JStr (''Idem_'' @ py_str E (dict_get d ''idempotency_key'' JNull)))]))
             (Some 60) s4 = (Inr data, s5)"
    by simp
  from transfer_tail_result [OF run h] show ?thesis .
qed

lemma example_transfer_run:
  "private_request (example_env (Response 200 (Json data))) example_service ''POST''
     (''/transfer/'' @ user_id (party_user ''S1''))
     (Some (JObj [(''transactionAmount'', JFloat (Finite 50)),
                  (''transactionRecipient'', JStr (payment_identifier (party_user ''M1''))),
                  (''transactionNotes'',
                   JStr (''Idem_'' @ py_str (example_env (Response 200 (Json data))) (JStr ''k-1'')))]))
     (Some 60) s =
   (Inr data, served s (transfer_request ''S1'' ''pay-M1'' ''k-1'') (Response 200 (Json data)))"
  by (simp add: run_eval)

text \<open>
  The two examples of the specification, each answered with status 200: "Transfer
  successful", and "Transfer failed: insufficient liquidity".
\<close>

theorem transfer_outcome_witness:
  "message_successful (example_env transfer_ok) (JObj [(''message'', JStr ''Transfer successful'')]) \<and>
   fst (handler (example_env transfer_ok) Pay_user pay_body s0) = Inr transfer_successful \<and>
   \<not> message_successful (example_env (transfer_declined 200))
       (JObj [(''message'', JStr ''Transfer failed: insufficient liquidity'')]) \<and>
   fst (handler (example_env (transfer_declined 200)) Pay_user pay_body s0) = Inr transfer_failed"
proof -
  let ?ok = "JObj [(''message'', JStr ''Transfer successful'')]"
  let ?no = "JObj [(''message'', JStr ''Transfer failed: insufficient liquidity'')]"
  have ok: "message_successful (example_env transfer_ok) ?ok"
    by (simp add: message_successful_def successful_message_def py_str_def lower_def lower_char_def)
  have no: "\<not> message_successful (example_env (transfer_declined 200)) ?no"
    by (simp add: message_successful_def successful_message_def py_str_def lower_def lower_char_def)
  have shape: "is_dict ?no" by (simp add: is_dict_def)
  have example_pay_user: "(fst (handler (example_env (Response 200 (Json data))) Pay_user pay_body s0) =
        Inr transfer_successful \<longleftrightarrow>
      message_successful (example_env (Response 200 (Json data))) data) \<and>
     ((is_dict data \<or> \<not> truthy data) \<and>
      \<not> message_successful (example_env (Response 200 (Json data))) data \<longrightarrow>
        fst (handler (example_env (Response 200 (Json data))) Pay_user pay_body s0) =
          Inr transfer_failed)"
    for data
  proof -
    let ?E = "example_env (Response 200 (Json data))"
    let ?d = "[(''merchantId'', JStr ''M1''), (''studentId'', JStr ''S1''),
               (''idempotency_key'', JStr ''k-1''), (''amount_cents'', JInt 5000)]"
    let ?s2 = "served s0 (get_request ''users/M1'') (Response 200 (Json (JObj [(''user'', party ''M1'')])))"
    let ?s3 = "served ?s2 (get_request ''users/S1'') (Response 200 (Json (party ''S1'')))"
    let ?s4 = "served ?s3 (get_request ''recipient/pay-S1'')
                 (Response 200 (Json (JObj [(''recipient'', JObj [(''name'', JStr ''F L'')])])))"
    have body: "pay_body = JObj ?d" by (simp add: pay_body_def)
    have first: "JStr ''M1'' = dict_get ?d (if Pay_user = Pay_user then ''merchantId'' else ''sponsorId'') JNull"
      by (simp add: dict_get_def)
    have student: "dict_get ?d ''studentId'' JNull = JStr ''S1''" by (simp add: dict_get_def)
    have key: "dict_get ?d ''idempotency_key'' JNull = JStr ''k-1''" by (simp add: dict_get_def)
    have amount: "truediv_100 (dict_get ?d ''amount_cents'' JNull) = Inr (Finite 50)"
      by (simp add: dict_get_def truediv_100_5000)
    have u1: "get_user ?E example_service (JStr ''M1'') None s0 = (Inr (party_user ''M1''), ?s2)"
      by (rule example_get_user_M1)
    have u2: "get_user ?E example_service (dict_get ?d ''studentId'' JNull) None ?s2 =
                (Inr (party_user ''S1''), ?s3)"
      unfolding student by (rule example_get_user_S1)
    have rc: "get_recipient ?E example_service (payment_identifier (party_user ''S1'')) None ?s3 =
                (Inr (JObj [(''name'', JStr ''F L'')]), ?s4)"
      by (rule example_get_recipient)
    have run: "private_request ?E example_service ''POST'' (''/transfer/'' @ user_id (party_user ''S1''))
       (Some (JObj [(''transactionAmount'', JFloat (Finite 50)),
                    (''transactionRecipient'', JStr (payment_identifier (party_user ''M1''))),
                    (''transactionNotes'',
                     JStr (''Idem_'' @ py_str ?E (dict_get ?d ''idempotency_key'' JNull)))]))
       (Some 60) ?s4 =
       (Inr data, served ?s4 (transfer_request ''S1'' ''pay-M1'' ''k-1'') (Response 200 (Json data)))"
      unfolding key by (rule example_transfer_run)
    show ?thesis
      by (rule transfer_outcome [OF _ body first _ _ example_service amount _ u1 u2 rc _ _ _ run])
         (simp_all add: truthy_def student)
  qed
  from example_pay_user [of ?ok] ok
  have "fst (handler (example_env transfer_ok) Pay_user pay_body s0) = Inr transfer_successful"
    by (simp add: transfer_ok_def)
  moreover from example_pay_user [of ?no] no shape
  have "fst (handler (example_env (transfer_declined 200)) Pay_user pay_body s0) = Inr transfer_failed"
    by (simp add: transfer_declined_def)
  ultimately show ?thesis using ok no by simp
qed

text \<open>
  The provider declines the transfer with status 402 and the message of the second
  example: the client raises, and the handler returns no \<open>{result: false}\<close>.
\<close>

theorem transfer_declined_counterexample:
  "fst (handler (example_env (transfer_declined 402)) Pay_user pay_body s0) =
     Inl (RapydMoneyAPIError 402 ''https://provider.example/api/v1/transfer/S1'' API_Error)"
  by (simp add: run_eval truediv_100_5000)

subsection \<open>FundUser\<close>

lemma fund_user_absent:
  assumes "body = JObj d" and "\<not> truthy (dict_get d ''sponsorId'' JNull)"
  shows "api_fund_user E body s = (Inr user_cannot_pay, s)"
  using assms by (simp add: api_fund_user_def body_get_def return_def)

lemma fund_user_returns:
  assumes "body = JObj d" and "api_fund_user E body s = (Inr v, s')"
  shows "v = (if truthy (dict_get d ''sponsorId'' JNull) then user_can_pay else user_cannot_pay)"
  using assms
  by (auto simp: api_fund_user_def body_get_def andthen_def lift_def return_def Let_def
        split: prod.splits sum.splits if_splits)

lemma fund_user_minted:
  assumes "body = JObj d" and "truthy (dict_get d ''sponsorId'' JNull)"
      and "create_rapydmoney_service (RAPYD_MONEY_API_TOKEN E) (RAPYD_MONEY_BASE_URL E) = Inr rapyd"
      and "truediv_100 (dict_get d ''amount_cents'' JNull) = Inr amount"
      and "get_user E rapyd (dict_get d ''sponsorId'' JNull) None s = (Inr existing_user, s2)"
      and "mint E rapyd
             (JObj [(''transactionAmount'', JFloat amount),
                    (''transactionRecipient'', JStr (payment_identifier existing_user)),
                    (''transactionNotes'',
                     JStr (''EFT deposit '' @ py_str E (JFloat amount) @ '' to '' @
                           py_str E (dict_get d ''sponsorId'' JNull)))])
             None s2 = (Inr resp, s3)"
  shows "api_fund_user E body s =
           (Inr user_can_pay,
            s3\<lparr>logs := logs s3 @
                  [Print (py_str E resp),
                   Print (if truthy resp then ''Mint request successful'' else ''Mint request failed'')]\<rparr>)"
  using assms
  by (simp add: api_fund_user_def body_get_def new_service_def andthen_Inr model_truthy_def Let_def)
     (simp add: andthen_def emit_def return_def)

text \<open>
  Claim C9, as amended. For every FundUser request in which sponsorId is supplied, any
  body the handler returns is the same generic message "User can pay"; when the lookup of
  the party and the mint call return, this body is returned whether the mint response is
  true or false in a condition, which is only printed. For every request in which
  sponsorId is absent, the different generic message "User cannot pay" is returned.
\<close>

theorem fund_user_messages:
  assumes "body = JObj d"
  shows "(\<not> truthy (dict_get d ''sponsorId'' JNull) \<longrightarrow>
            api_fund_user E body s = (Inr user_cannot_pay, s)) \<and>
         (truthy (dict_get d ''sponsorId'' JNull) \<and> api_fund_user E body s = (Inr v, s') \<longrightarrow>
            v = user_can_pay) \<and>
         (truthy (dict_get d ''sponsorId'' JNull) \<and>
          create_rapydmoney_service (RAPYD_MONEY_API_TOKEN E) (RAPYD_MONEY_BASE_URL E) = Inr rapyd \<and>
          truediv_100 (dict_get d ''amount_cents'' JNull) = Inr amount \<and>
          get_user E rapyd (dict_get d ''sponsorId'' JNull) None s = (Inr existing_user, s2) \<and>
          mint E rapyd
            (JObj [(''transactionAmount'', JFloat amount),
                   (''transactionRecipient'', JStr (payment_identifier existing_user)),
                   (''transactionNotes'',
                    JStr (''EFT deposit '' @ py_str E (JFloat amount) @ '' to '' @
                          py_str E (dict_get d ''sponsorId'' JNull)))])
            None s2 = (Inr resp, s3) \<longrightarrow>
            api_fund_user E body s =
              (Inr user_can_pay,
               s3\<lparr>logs := logs s3 @
                     [Print (py_str E resp),
                      Print (if truthy resp then ''Mint request successful''
                             else ''Mint request failed'')]\<rparr>)) \<and>
         user_can_pay \<noteq> user_cannot_pay"
proof (intro conjI impI)
  assume "\<not> truthy (dict_get d ''sponsorId'' JNull)"
  with assms show "api_fund_user E body s = (Inr user_cannot_pay, s)"
    by (rule fund_user_absent)
next
  assume "truthy (dict_get d ''sponsorId'' JNull) \<and> api_fund_user E body s = (Inr v, s')"
  with fund_user_returns [OF assms, of E s v s'] show "v = user_can_pay" by simp
next
  assume "truthy (dict_get d ''sponsorId'' JNull) \<and>
          create_rapydmoney_service (RAPYD_MONEY_API_TOKEN E) (RAPYD_MONEY_BASE_URL E) = Inr rapyd \<and>
          truediv_100 (dict_get d ''amount_cents'' JNull) = Inr amount \<and>
          get_user E rapyd (dict_get d ''sponsorId'' JNull) None s = (Inr existing_user, s2) \<and>
          mint E rapyd
            (JObj [(''transactionAmount'', JFloat amount),
                   (''transactionRecipient'', JStr (payment_identifier existing_user)),
                   (''transactionNotes'',
                    JStr (''EFT deposit '' @ py_str E (JFloat amount) @ '' to '' @
                          py_str E (dict_get d ''sponsorId'' JNull)))])
            None s2 = (Inr resp, s3)"
  with assms show "api_fund_user E body s =
              (Inr user_can_pay,
               s3\<lparr>logs := logs s3 @
                     [Print (py_str E resp),
                      Print (if truthy resp then ''Mint request successful''
                             else ''Mint request failed'')]\<rparr>)"
    using fund_user_minted by blast
next
  show "user_can_pay \<noteq> user_cannot_pay"
    by (simp add: user_can_pay_def user_cannot_pay_def)
qed

text \<open>
  A request that funds M1: the provider answers the mint call with an empty body, which
  is printed as a failure, and the body is "User can pay". A request without sponsorId.
\<close>

theorem fund_user_messages_witness:
  "fst (api_fund_user (example_env transfer_ok) (fund_body ''M1'') s0) = Inr user_can_pay \<and>
   logs (snd (api_fund_user (example_env transfer_ok) (fund_body ''M1'') s0)) =
     [Print ''None'', Print ''Mint request failed''] \<and>
   api_fund_user (example_env transfer_ok) (JObj []) s0 = (Inr user_cannot_pay, s0)"
proof -
  let ?E = "example_env transfer_ok"
  let ?d = "[(''sponsorId'', JStr ''M1''), (''amount_cents'', JInt 5000)]"
  let ?s2 = "served s0 (get_request ''users/M1'') (Response 200 (Json (JObj [(''user'', party ''M1'')])))"
  let ?mint = "JObj [(''transactionAmount'', JFloat (Finite 50)),
                     (''transactionRecipient'', JStr (payment_identifier (party_user ''M1''))),
                     (''transactionNotes'',
                      JStr (''EFT deposit '' @ py_str ?E (JFloat (Finite 50)) @ '' to '' @
                            py_str ?E (dict_get ?d ''sponsorId'' JNull)))]"
  let ?rq = "\<lparr>http_method = ''POST'', url = ''https://provider.example/api/v1/mint'',
              headers = [(''Content-Type'', ''application/json''), (''Authorization'', ''Bearer secret'')],
              json_body = Some ?mint, timeout = 10\<rparr>"
  have sponsor: "dict_get ?d ''sponsorId'' JNull = JStr ''M1''" by (simp add: dict_get_def)
  have present: "truthy (dict_get ?d ''sponsorId'' JNull)" by (simp add: dict_get_def truthy_def)
  have amount: "truediv_100 (dict_get ?d ''amount_cents'' JNull) = Inr (Finite 50)"
    by (simp add: dict_get_def truediv_100_5000)
  have u: "get_user ?E example_service (dict_get ?d ''sponsorId'' JNull) None s0 =
             (Inr (party_user ''M1''), ?s2)"
    unfolding sponsor by (rule example_get_user_M1)
  have m: "mint ?E example_service ?mint None ?s2 = (Inr JNull, served ?s2 ?rq (Response 200 Empty))"
    by (simp add: run_eval)
  from fund_user_messages [OF refl, of ?d ?E s0] present example_service [of transfer_ok] amount u m
  have 1: "api_fund_user ?E (JObj ?d) s0 =
             (Inr user_can_pay,
              (served ?s2 ?rq (Response 200 Empty))
                \<lparr>logs := logs (served ?s2 ?rq (Response 200 Empty)) @
                   [Print (py_str ?E JNull),
                    Print (if truthy JNull then ''Mint request successful'' else ''Mint request failed'')]\<rparr>)"
    by blast
  have absent: "\<not> truthy (dict_get [] ''sponsorId'' JNull)" by (simp add: dict_get_def truthy_def)
  from fund_user_messages [OF refl, of "[]" ?E s0] absent
  have 2: "api_fund_user ?E (JObj []) s0 = (Inr user_cannot_pay, s0)" by blast
  from 1 2 show ?thesis
    by (simp add: fund_body_def served_def s0_def py_str_def example_env_def example_str_def truthy_def)
qed

text \<open>
  The lookup of a sponsor that the provider does not know (status 404): the client
  raises, and no body is returned.
\<close>

theorem fund_user_lookup_counterexample:
  "fst (api_fund_user (example_env transfer_ok) (fund_body ''X9'') s0) =
     Inl (RapydMoneyAPIError 404 ''https://provider.example/api/v1/users/X9'' API_Error)"
  by (simp add: run_eval truediv_100_5000)

subsection \<open>The queue consumer\<close>

lemma keeps_return [intro!, simp]: "keeps (return x)"
  by (simp add: keeps_def return_def)

lemma keeps_raise [intro!, simp]: "keeps (raise e)"
  by (simp add: keeps_def raise_def)

lemma keeps_lift [intro!, simp]: "keeps (lift r)"
  by (simp add: keeps_def lift_def)

lemma keeps_emit [intro!]: "\<not> is_got l \<Longrightarrow> keeps (emit l)"
  by (simp add: keeps_def emit_def)

lemma keeps_if [intro!]:
  "(c \<Longrightarrow> keeps a) \<Longrightarrow> (\<not> c \<Longrightarrow> keeps b) \<Longrightarrow> keeps (if c then a else b)"
  by simp

lemma keeps_andthen [intro!]:
  assumes "keeps m" and "\<And>x. keeps (f x)"
  shows "keeps (andthen m f)"
  unfolding keeps_def
proof
  fix s
  obtain r s1 where ms: "m s = (r, s1)" by (cases "m s")
  from assms(1) ms obtain new1 where
    m1: "mails s1 = mails s" and l1: "logs s1 = logs s @ new1" and g1: "filter is_got new1 = []"
    unfolding keeps_def by (metis snd_conv)
  show "mails (snd (andthen m f s)) = mails s \<and>
        (\<exists>new. logs (snd (andthen m f s)) = logs s @ new \<and> filter is_got new = [])"
  proof (cases r)
    case (Inl e)
    with ms m1 l1 g1 show ?thesis by (auto simp: andthen_def)
  next
    case (Inr a)
    from assms(2) [of a] obtain new2 where
      m2: "mails (snd (f a s1)) = mails s1" and l2: "logs (snd (f a s1)) = logs s1 @ new2"
      and g2: "filter is_got new2 = []"
      unfolding keeps_def by blast
    from Inr ms m1 l1 g1 m2 l2 g2 show ?thesis
      by (auto simp: andthen_def intro!: exI [of _ "new1 @ new2"])
  qed
qed

lemma keeps_try_except [intro!]:
  assumes "keeps m" and "\<And>e. keeps (h e)"
  shows "keeps (try_except m h)"
  unfolding keeps_def
proof
  fix s
  obtain r s1 where ms: "m s = (r, s1)" by (cases "m s")
  from assms(1) ms obtain new1 where
    m1: "mails s1 = mails s" and l1: "logs s1 = logs s @ new1" and g1: "filter is_got new1 = []"
    unfolding keeps_def by (metis snd_conv)
  show "mails (snd (try_except m h s)) = mails s \<and>
        (\<exists>new. logs (snd (try_except m h s)) = logs s @ new \<and> filter is_got new = [])"
  proof (cases r)
    case (Inr a)
    with ms m1 l1 g1 show ?thesis by (auto simp: try_except_def)
  next
    case (Inl e)
    from assms(2) [of e] obtain new2 where
      m2: "mails (snd (h e s1)) = mails s1" and l2: "logs (snd (h e s1)) = logs s1 @ new2"
      and g2: "filter is_got new2 = []"
      unfolding keeps_def by blast
    from Inl ms m1 l1 g1 m2 l2 g2 show ?thesis
      by (auto simp: try_except_def intro!: exI [of _ "new1 @ new2"])
  qed
qed

lemma keeps_private_request [intro!, simp]: "keeps (private_request E svc meth path body tmo)"
  by (auto simp: keeps_def private_request_def Let_def split: prod.splits http_result.splits)

lemma keeps_create_user [intro!, simp]: "keeps (create_user E svc d tmo)"
  unfolding create_user_def
  by (intro keeps_andthen keeps_private_request) (auto split: json.splits option.splits)

lemma keeps_activate_pay [intro!, simp]: "keeps (activate_pay E svc uid tmo)"
  unfolding activate_pay_def by (intro keeps_andthen keeps_private_request) auto

lemma keeps_new_service [intro!, simp]: "keeps (new_service E)"
  unfolding new_service_def by simp

lemma not_got [simp]: "\<not> is_got (Print t)" "\<not> is_got (LogError t)" "\<not> is_got (LogWarning t)"
  by (simp_all add: is_got_def)

lemma keeps_register_user: "keeps (register_user E parsed)"
  unfolding register_user_def Let_def
  by (intro keeps_try_except keeps_andthen keeps_if keeps_emit) auto

lemma try_except_emit_total: "fst (try_except m (\<lambda>exc. emit l) s) = Inr ()"
  by (cases "m s") (auto simp: try_except_def emit_def split: sum.splits)

lemma register_user_total: "fst (register_user E parsed s) = Inr ()"
  unfolding register_user_def by (rule try_except_emit_total)

lemma send_welcome_run:
  "\<exists>s'. send_welcome E parsed s = (Inr (), s') \<and>
        mails s' = mails s @ [mail_of (UserRegistered parsed)] \<and>
        (\<exists>new. logs s' = logs s @ new \<and> filter is_got new = [])"
  by (cases "send_welcome_email E (ue_email (user parsed)) (display_name (user parsed))
               (map_option role_value (role (user parsed))) (world s)")
     (auto simp: send_welcome_def try_except_def andthen_def call_mailer_def emit_def Let_def
        mail_of_def is_got_def split: sum.splits)

lemma send_magic_link_run:
  "\<exists>s'. send_magic_link E parsed s = (Inr (), s') \<and>
        mails s' = mails s @ [mail_of (StudentMagicLinkRequested parsed)] \<and>
        (\<exists>new. logs s' = logs s @ new \<and> filter is_got new = [])"
  by (cases "send_magic_link_email E (email parsed) (magicToken parsed) (linkUrl parsed) (world s)")
     (auto simp: send_magic_link_def try_except_def andthen_def call_mailer_def emit_def Let_def
        mail_of_def is_got_def split: sum.splits)

lemma dispatch_run:
  "\<exists>s'. dispatch E parsed s = (Inr (), s') \<and>
        mails s' = mails s @ [mail_of parsed] \<and>
        (\<exists>new. logs s' = logs s @ new \<and> filter is_got new = [])"
proof (cases parsed)
  case (StudentMagicLinkRequested m)
  with send_magic_link_run [of E m s] show ?thesis by (simp add: dispatch_def)
next
  case (UserRegistered m)
  from send_welcome_run [of E m s] obtain s1 new1 where
    w: "send_welcome E m s = (Inr (), s1)" and m1: "mails s1 = mails s @ [mail_of (UserRegistered m)]"
    and l1: "logs s1 = logs s @ new1" and g1: "filter is_got new1 = []"
    by blast
  obtain r s2 where ru: "register_user E m s1 = (r, s2)" by (cases "register_user E m s1")
  with register_user_total [of E m s1] have r: "r = Inr ()" by simp
  from keeps_register_user [of E m] ru obtain new2 where
    m2: "mails s2 = mails s1" and l2: "logs s2 = logs s1 @ new2" and g2: "filter is_got new2 = []"
    unfolding keeps_def by (metis snd_conv)
  from UserRegistered w ru r m1 m2 l1 l2 g1 g2 show ?thesis
    by (auto simp: dispatch_def andthen_def intro!: exI [of _ "new1 @ new2"])
qed

lemma handle_record_run:
  "\<exists>s'. handle_record E body_str s = (Inr (), s') \<and>
        mails s' = mails s @ (case dispatched E body_str of None \<Rightarrow> [] | Some c \<Rightarrow> [c]) \<and>
        (\<exists>new. logs s' = logs s @ LogInfo (''Got message: '' @ body_str) # new \<and>
               filter is_got new = [])"
proof -
  let ?s1 = "s\<lparr>logs := logs s @ [LogInfo (''Got message: '' @ body_str)]\<rparr>"
  show ?thesis
  proof (cases "normalize E body_str")
    case None
    then show ?thesis
      by (simp add: handle_record_def andthen_def emit_def dispatched_def)
  next
    case (Some data)
    show ?thesis
    proof (cases "parse_sqs_message E data")
      case (Inl e)
      with Some show ?thesis
        by (simp add: handle_record_def andthen_def emit_def dispatched_def)
    next
      case (Inr parsed)
      from dispatch_run [of E parsed ?s1] obtain s' new where
        d: "dispatch E parsed ?s1 = (Inr (), s')" and m: "mails s' = mails ?s1 @ [mail_of parsed]"
        and l: "logs s' = logs ?s1 @ new" and g: "filter is_got new = []"
        by blast
      with Some Inr show ?thesis
        by (simp add: handle_record_def andthen_def emit_def dispatched_def)
    qed
  qed
qed

lemma is_got_Got [simp]:
  "is_got (LogInfo (CHR ''G'' # CHR ''o'' # CHR ''t'' # CHR '' '' # CHR ''m'' # CHR ''e'' # CHR ''s'' #
                    CHR ''s'' # CHR ''a'' # CHR ''g'' # CHR ''e'' # CHR '':'' # CHR '' '' # b))"
  by (simp add: is_got_def)

lemma handle_my_queue_run:
  "\<exists>s' new. handle_my_queue E event s = (Inr (), s') \<and>
        mails s' = mails s @ List.map_filter (dispatched E) event \<and>
        logs s' = logs s @ new \<and>
        filter is_got new = map (\<lambda>b. LogInfo (''Got message: '' @ b)) event"
proof (induction event arbitrary: s)
  case Nil
  show ?case by (simp add: return_def List.map_filter_simps)
next
  case (Cons b event)
  from handle_record_run [of E b s] obtain s1 new1 where
    h: "handle_record E b s = (Inr (), s1)" and
    m1: "mails s1 = mails s @ (case dispatched E b of None \<Rightarrow> [] | Some c \<Rightarrow> [c])" and
    l1: "logs s1 = logs s @ LogInfo (''Got message: '' @ b) # new1" and g1: "filter is_got new1 = []"
    by blast
  from Cons.IH [of s1] obtain s' new where
    q: "handle_my_queue E event s1 = (Inr (), s')" and
    m: "mails s' = mails s1 @ List.map_filter (dispatched E) event" and
    l: "logs s' = logs s1 @ new" and
    g: "filter is_got new = map (\<lambda>b. LogInfo (''Got message: '' @ b)) event"
    by blast
  from h q m1 m l1 l g1 g show ?case
    by (intro exI [of _ s'] exI [of _ "LogInfo (''Got message: '' @ b) # new1 @ new"])
       (auto simp: andthen_def List.map_filter_simps split: option.splits)
qed

lemmas queue_eval =
  dispatched_def normalize_def parse_sqs_message_def parse_def py_in_def py_getitem_def
  EventType_of_def get_class_def sqs_registry_def model_validate_def cls_name_def
  validate_UserRegistered_def validate_StudentMagicLinkRequested_def validate_UserEnvelope_def
  validate_Keys_def literal_eventType_def req_str_def req_field_def opt_field_def str_value_def
  email_value_def UserRole_of_def mail_of_def display_name_def nonempty_def role_value_def
  queue_env_def example_env_def example_json_loads_def registered_text_def registered_json_def
  magic_text_def magic_json_def invalid_text_def invalid_json_def wrapped_text_def
  hello_text_def json_escape_def dict_get_def

lemma dispatched_registered:
  "dispatched queue_env registered_text =
     Some (Welcome ''u1@example.org'' (Some ''Wikus Schalkwyk'') (Some ''merchant''))"
  by (simp add: queue_eval)

lemma dispatched_wrapped:
  "dispatched queue_env wrapped_text =
     Some (Welcome ''u1@example.org'' (Some ''Wikus Schalkwyk'') (Some ''merchant''))"
  by (simp add: queue_eval)

lemma dispatched_magic:
  "dispatched queue_env magic_text = Some (MagicLink ''s1@example.org'' ''tok-1'' None)"
  by (simp add: queue_eval)

lemma dispatched_invalid: "dispatched queue_env invalid_text = None"
  by (simp add: queue_eval)

lemma dispatched_not_json: "dispatched queue_env ''not json'' = None"
  by (simp add: queue_eval)

text \<open>
  Claim C7. For every queue batch and every message in it, a failure while handling one
  message (the body does not decode, the message does not validate, or its dispatch
  handler raises) does not prevent the later messages of the batch from being processed:
  the loop never ends with an exception, it reaches every record (one "Got message" line
  each, in order), and the mailer is called, in order, for every record that decodes and
  validates, whatever the collaborators do.
\<close>

theorem batch_isolation:
  "\<exists>s' new. handle_my_queue E event s = (Inr (), s') \<and>
      mails s' = mails s @ List.map_filter (dispatched E) event \<and>
      logs s' = logs s @ new \<and>
      filter is_got new = map (\<lambda>b. LogInfo (''Got message: '' @ b)) event"
  by (rule handle_my_queue_run)

text \<open>
  Ten records: the third does not validate, the ninth is not JSON, and every welcome mail
  raises (as does the registration with the provider); the eight other messages are
  dispatched.
\<close>

theorem batch_isolation_witness:
  "fst (handle_my_queue queue_env ten_records s0) = Inr () \<and>
   mails (snd (handle_my_queue queue_env ten_records s0)) =
     [Welcome ''u1@example.org'' (Some ''Wikus Schalkwyk'') (Some ''merchant''),
      MagicLink ''s1@example.org'' ''tok-1'' None,
      MagicLink ''s1@example.org'' ''tok-1'' None,
      Welcome ''u1@example.org'' (Some ''Wikus Schalkwyk'') (Some ''merchant''),
      MagicLink ''s1@example.org'' ''tok-1'' None,
      Welcome ''u1@example.org'' (Some ''Wikus Schalkwyk'') (Some ''merchant''),
      MagicLink ''s1@example.org'' ''tok-1'' None,
      Welcome ''u1@example.org'' (Some ''Wikus Schalkwyk'') (Some ''merchant'')]"
proof -
  from batch_isolation [of queue_env ten_records s0] obtain s' new where
    run: "handle_my_queue queue_env ten_records s0 = (Inr (), s')" and
    m: "mails s' = mails s0 @ List.map_filter (dispatched queue_env) ten_records"
    by blast
  have "List.map_filter (dispatched queue_env) ten_records =
     [Welcome ''u1@example.org'' (Some ''Wikus Schalkwyk'') (Some ''merchant''),
      MagicLink ''s1@example.org'' ''tok-1'' None,
      MagicLink ''s1@example.org'' ''tok-1'' None,
      Welcome ''u1@example.org'' (Some ''Wikus Schalkwyk'') (Some ''merchant''),
      MagicLink ''s1@example.org'' ''tok-1'' None,
      Welcome ''u1@example.org'' (Some ''Wikus Schalkwyk'') (Some ''merchant''),
      MagicLink ''s1@example.org'' ''tok-1'' None,
      Welcome ''u1@example.org'' (Some ''Wikus Schalkwyk'') (Some ''merchant'')]"
    by (simp add: ten_records_def List.map_filter_simps dispatched_registered dispatched_wrapped
          dispatched_magic dispatched_invalid dispatched_not_json)
  with run m show ?thesis by (simp add: s0_def)
qed

subsection \<open>The normalizer\<close>

lemma normalize_dict_message:
  assumes "json_loads E body = Some (JObj d)" and "map_of d ''Message'' = Some (JStr m)"
  shows "normalize E body =
           Some (case json_loads E m of
                   Some (JObj inner) \<Rightarrow>
                     if map_of inner ''eventType'' \<noteq> None then JObj inner else JObj d
                 | _ \<Rightarrow> JObj d)"
  using assms by (simp add: normalize_def)

lemma normalize_other:
  assumes "json_loads E body = Some data"
      and "\<And>d m. data = JObj d \<Longrightarrow> map_of d ''Message'' \<noteq> Some (JStr m)"
  shows "normalize E body = Some data"
proof (cases data)
  case (JObj d)
  show ?thesis
  proof (cases "map_of d ''Message''")
    case None
    with JObj assms(1) show ?thesis by (simp add: normalize_def)
  next
    case (Some v)
    with JObj assms(2) have "\<forall>m. v \<noteq> JStr m" by auto
    with Some JObj assms(1) show ?thesis by (cases v) (simp_all add: normalize_def)
  qed
qed (use assms(1) in \<open>simp_all add: normalize_def\<close>)

lemma normalize_result:
  assumes "normalize E body = Some w"
  shows "json_loads E body = Some w \<or>
         (\<exists>d m. json_loads E body = Some (JObj d) \<and> map_of d ''Message'' = Some (JStr m) \<and>
                 json_loads E m = Some w)"
proof (cases "json_loads E body")
  case None
  with assms show ?thesis by (simp add: normalize_def)
next
  case (Some data)
  show ?thesis
  proof (cases "\<exists>d m. data = JObj d \<and> map_of d ''Message'' = Some (JStr m)")
    case False
    then have "normalize E body = Some data" using Some by (intro normalize_other) auto
    with assms Some show ?thesis by simp
  next
    case True
    then obtain d m where d: "data = JObj d" and m: "map_of d ''Message'' = Some (JStr m)" by blast
    from Some d have l: "json_loads E body = Some (JObj d)" by simp
    show ?thesis
    proof (cases "json_loads E m")
      case None
      with normalize_dict_message [OF l m] assms l show ?thesis by simp
    next
      case (Some x)
      show ?thesis
      proof (cases "\<exists>inner. x = JObj inner \<and> map_of inner ''eventType'' \<noteq> None")
        case True
        with Some normalize_dict_message [OF l m] assms have "w = x" by auto
        with Some l m show ?thesis by blast
      next
        case False
        with Some normalize_dict_message [OF l m] have "normalize E body = Some (JObj d)"
          by (cases x) auto
        with assms l show ?thesis by simp
      qed
    qed
  qed
qed

lemma handle_my_queue_dropped:
  assumes "json_loads E body = None"
  shows "handle_my_queue E (body # event) s =
           handle_my_queue E event
             (s\<lparr>logs := logs s @ [LogInfo (''Got message: '' @ body),
                                  LogError ''Failed to parse SQS record body as JSON'']\<rparr>)"
  using assms by (simp add: handle_record_def normalize_def andthen_def emit_def)

text \<open>
  Claim C5. For every queue message body that decodes to a map with a string under
  "Message": if that string decodes to a map containing "eventType", the normalizer takes
  the inner map as the working message; if the inner decode fails, or gives a value that
  is no map or a map without "eventType", the outer map is kept. At most one level is
  unwrapped: the working message is the decoded body or the decoded string under its
  "Message". A body that does not decode is dropped, and the loop goes on with the next
  record.
\<close>

theorem normalize_unwraps_once:
  "(json_loads E body = Some (JObj d) \<and> map_of d ''Message'' = Some (JStr m) \<and>
    json_loads E m = Some (JObj inner) \<and> map_of inner ''eventType'' \<noteq> None \<longrightarrow>
      normalize E body = Some (JObj inner)) \<and>
   (json_loads E body = Some (JObj d) \<and> map_of d ''Message'' = Some (JStr m) \<and>
    (json_loads E m = None \<or> (\<exists>x. json_loads E m = Some x \<and> \<not> is_dict x) \<or>
     (\<exists>i. json_loads E m = Some (JObj i) \<and> map_of i ''eventType'' = None)) \<longrightarrow>
      normalize E body = Some (JObj d)) \<and>
   (normalize E body = Some w \<longrightarrow>
      json_loads E body = Some w \<or>
      (\<exists>d' m'. json_loads E body = Some (JObj d') \<and> map_of d' ''Message'' = Some (JStr m') \<and>
                json_loads E m' = Some w)) \<and>
   (json_loads E body = None \<longrightarrow>
      normalize E body = None \<and>
      handle_my_queue E (body # event) s =
        handle_my_queue E event
          (s\<lparr>logs := logs s @ [LogInfo (''Got message: '' @ body),
                               LogError ''Failed to parse SQS record body as JSON'']\<rparr>))"
proof (intro conjI impI)
  assume "json_loads E body = Some (JObj d) \<and> map_of d ''Message'' = Some (JStr m) \<and>
    json_loads E m = Some (JObj inner) \<and> map_of inner ''eventType'' \<noteq> None"
  then show "normalize E body = Some (JObj inner)"
    using normalize_dict_message [of E body d m] by auto
next
  assume "json_loads E body = Some (JObj d) \<and> map_of d ''Message'' = Some (JStr m) \<and>
    (json_loads E m = None \<or> (\<exists>x. json_loads E m = Some x \<and> \<not> is_dict x) \<or>
     (\<exists>i. json_loads E m = Some (JObj i) \<and> map_of i ''eventType'' = None))"
  then have l: "json_loads E body = Some (JObj d)" and m: "map_of d ''Message'' = Some (JStr m)"
    and c: "json_loads E m = None \<or> (\<exists>x. json_loads E m = Some x \<and> \<not> is_dict x) \<or>
     (\<exists>i. json_loads E m = Some (JObj i) \<and> map_of i ''eventType'' = None)"
    by simp_all
  from c show "normalize E body = Some (JObj d)"
  proof (elim disjE exE conjE)
    assume "json_loads E m = None"
    with normalize_dict_message [OF l m] show ?thesis by simp
  next
    fix x assume "json_loads E m = Some x" and "\<not> is_dict x"
    with normalize_dict_message [OF l m] show ?thesis by (cases x) (simp_all add: is_dict_def)
  next
    fix i assume "json_loads E m = Some (JObj i)" and "map_of i ''eventType'' = None"
    with normalize_dict_message [OF l m] show ?thesis by simp
  qed
next
  assume "normalize E body = Some w"
  then show "json_loads E body = Some w \<or>
      (\<exists>d' m'. json_loads E body = Some (JObj d') \<and> map_of d' ''Message'' = Some (JStr m') \<and>
                json_loads E m' = Some w)"
    by (rule normalize_result)
next
  assume "json_loads E body = None"
  then show "normalize E body = None" by (simp add: normalize_def)
next
  assume "json_loads E body = None"
  then show "handle_my_queue E (body # event) s =
        handle_my_queue E event
          (s\<lparr>logs := logs s @ [LogInfo (''Got message: '' @ body),
                               LogError ''Failed to parse SQS record body as JSON'']\<rparr>)"
    by (rule handle_my_queue_dropped)
qed

text \<open>
  The wrapped registration is unwrapped, the wrapper around "hello" is kept, and a body
  that is not JSON is dropped.
\<close>

theorem normalize_unwraps_once_witness:
  "normalize queue_env wrapped_text = Some registered_json \<and>
   normalize queue_env hello_text = Some (JObj [(''Message'', JStr ''hello'')]) \<and>
   normalize queue_env ''not json'' = None \<and>
   handle_my_queue queue_env [''not json''] s0 =
     (Inr (), s0\<lparr>logs := [LogInfo ''Got message: not json'',
                           LogError ''Failed to parse SQS record body as JSON'']\<rparr>)"
proof -
  let ?E = queue_env
  let ?inner = "[(''eventType'', JStr ''USER_REGISTERED''), (''timestamp'', JStr ''2025-08-08T14:43:25.029Z''),
           (''user'', JObj [(''id'', JStr ''u1''), (''email'', JStr ''u1@example.org''),
                            (''role'', JStr ''merchant''), (''firstName'', JStr ''Wikus''),
                            (''lastName'', JStr ''Schalkwyk'')]),
           (''keys'', JObj [(''Pk'', JStr ''MERCHANT#u1''), (''Sk'', JStr ''USER'')]),
           (''table'', JStr ''kudupay''), (''source'', JStr ''auth.registerUser'')]"
  have outer: "json_loads ?E wrapped_text = Some (JObj [(''Message'', JStr registered_text)])"
    by (simp add: queue_env_def example_json_loads_def wrapped_text_def registered_text_def
          magic_text_def invalid_text_def json_escape_def)
  have msg: "map_of [(''Message'', JStr registered_text)] ''Message'' = Some (JStr registered_text)"
    by simp
  have inner: "json_loads ?E registered_text = Some (JObj ?inner)"
    by (simp add: queue_env_def example_json_loads_def registered_json_def)
  have key: "map_of ?inner ''eventType'' \<noteq> None"
    by simp
  have hello: "json_loads ?E hello_text = Some (JObj [(''Message'', JStr ''hello'')])"
    by (simp add: queue_env_def example_json_loads_def hello_text_def registered_text_def
          magic_text_def invalid_text_def wrapped_text_def json_escape_def)
  have hello_msg: "map_of [(''Message'', JStr ''hello'')] ''Message'' = Some (JStr ''hello'')"
    by simp
  have hello_inner: "json_loads ?E ''hello'' = None"
    by (simp add: queue_env_def example_json_loads_def hello_text_def registered_text_def
          magic_text_def invalid_text_def wrapped_text_def json_escape_def)
  have bad: "json_loads ?E ''not json'' = None"
    by (simp add: queue_env_def example_json_loads_def hello_text_def registered_text_def
          magic_text_def invalid_text_def wrapped_text_def json_escape_def)
  note unwrap = normalize_unwraps_once [where E = ?E and body = wrapped_text
      and d = "[(''Message'', JStr registered_text)]" and m = registered_text and inner = ?inner
      and w = JNull and event = "[]" and s = s0, THEN conjunct1, rule_format]
  note keep = normalize_unwraps_once [where E = ?E and body = hello_text
      and d = "[(''Message'', JStr ''hello'')]" and m = "''hello''" and inner = "[]"
      and w = JNull and event = "[]" and s = s0, THEN conjunct2, THEN conjunct1, rule_format]
  note drop = normalize_unwraps_once [where E = ?E and body = "''not json''"
      and d = "[]" and m = "[]" and inner = "[]"
      and w = JNull and event = "[]" and s = s0, THEN conjunct2, THEN conjunct2, THEN conjunct2,
      rule_format]
  have 1: "normalize ?E wrapped_text = Some (JObj ?inner)"
    by (rule unwrap) (intro conjI outer msg inner key)
  have 2: "normalize ?E hello_text = Some (JObj [(''Message'', JStr ''hello'')])"
    by (rule keep) (intro conjI disjI1 hello hello_msg hello_inner)
  from drop [OF bad]
  have 3: "normalize ?E ''not json'' = None" and
       4: "handle_my_queue ?E [''not json''] s0 =
             handle_my_queue ?E []
               (s0\<lparr>logs := logs s0 @ [LogInfo (''Got message: '' @ ''not json''),
                                      LogError ''Failed to parse SQS record body as JSON'']\<rparr>)"
    by blast+
  from 1 2 3 4 show ?thesis by (simp add: return_def s0_def registered_json_def)
qed

subsection \<open>The registry\<close>












end
